theory Spec2Isabelle
  imports Complex_Main
begin

section \<open>Pipe-navigation game (src/games/flappy-bird/Game.tsx)\<close>

text \<open>
  JavaScript numbers are modelled as \<open>real\<close>: positions, velocities, sizes, times and the
  results of \<open>Math.random()\<close>; arithmetic on them is exact, the rounding of floating-point
  operations is not part of the model. Counters that the code only ever increments by one from zero
  (score, level, frame count) are \<open>int\<close> or \<open>nat\<close>. Rendering, sound and the scheduling of the
  next animation frame are left out; every state variable the game logic reads or writes is a
  field of the state record, and each callback is a function from the old state to the new
  one. The browser window (\<open>window.innerWidth\<close>, \<open>window.innerHeight\<close>), the clock
  (\<open>Date.now()\<close>, \<open>performance.now()\<close>) and the random source are explicit inputs.
\<close>

record FlappySettings =
  gravity :: real
  jumpForce :: real
  pipeSpeed :: real
  pipeSpawnRate :: real
  gapSize :: real

definition DEFAULT_SETTINGS :: FlappySettings where
  "DEFAULT_SETTINGS =
     \<lparr>gravity = 0.6, jumpForce = -9, pipeSpeed = 3, pipeSpawnRate = 1500, gapSize = 250\<rparr>"

record Window =
  innerWidth :: real
  innerHeight :: real

text \<open>\<open>interface PipeData\<close>: \<open>pipe_height\<close> is the height of the top segment.\<close>

record PipeData =
  pipe_id :: real
  pipe_x :: real
  pipe_height :: real
  showLogo :: bool

record Rect =
  rleft :: real
  rright :: real
  rtop :: real
  rbottom :: real

record FlappyState =
  gameStarted :: bool
  gameOver :: bool
  scoreSubmitted :: bool
  birdPosition :: real
  birdVelocity :: real
  birdRotation :: real
  pipes :: "PipeData list"
  score :: int
  highScore :: int
  lastPipe :: real
  frameCount :: nat

text \<open>\<open>resetGame\<close> and \<open>jump\<close>.\<close>

definition resetGame :: "FlappyState \<Rightarrow> FlappyState" where
  "resetGame s = s\<lparr>birdPosition := 300, birdVelocity := 0, birdRotation := 0, pipes := [],
     score := 0, gameOver := False, gameStarted := False, scoreSubmitted := False\<rparr>"

definition jump :: "FlappySettings \<Rightarrow> FlappyState \<Rightarrow> FlappyState" where
  "jump st s =
     (let s1 = (if \<not> gameStarted s then s\<lparr>gameStarted := True\<rparr> else s)
      in if \<not> gameOver s then s1\<lparr>birdVelocity := jumpForce st, birdRotation := -30\<rparr> else s1)"

text \<open>
  \<open>spawnPipe\<close>: \<open>r\<close> is the value of \<open>Math.random()\<close>, \<open>now\<close> the value of \<open>Date.now()\<close>. The
  new pair is appended to the list the state updater receives.
\<close>

definition spawnPipe :: "FlappySettings \<Rightarrow> Window \<Rightarrow> real \<Rightarrow> real \<Rightarrow> PipeData list \<Rightarrow> PipeData list" where
  "spawnPipe st w now r ps =
     (let minHeight = 50;
          maxHeight = innerHeight w - gapSize st - minHeight;
          height = r * (maxHeight - minHeight) + minHeight
      in ps @ [\<lparr>pipe_id = now, pipe_x = innerWidth w, pipe_height = height,
                showLogo = (length ps > 0 \<and> (length ps + 1) mod 7 = 0)\<rparr>])"

text \<open>The three rectangles \<open>checkCollision\<close> builds.\<close>

definition birdRect :: "real \<Rightarrow> Rect" where
  "birdRect birdPos = \<lparr>rleft = 96, rright = 144, rtop = birdPos, rbottom = birdPos + 48\<rparr>"

definition topPipeRect :: "PipeData \<Rightarrow> Rect" where
  "topPipeRect pipe =
     \<lparr>rleft = pipe_x pipe, rright = pipe_x pipe + 80, rtop = 0, rbottom = pipe_height pipe\<rparr>"

definition bottomPipeRect :: "FlappySettings \<Rightarrow> Window \<Rightarrow> PipeData \<Rightarrow> Rect" where
  "bottomPipeRect st w pipe =
     \<lparr>rleft = pipe_x pipe, rright = pipe_x pipe + 80,
      rtop = pipe_height pipe + gapSize st, rbottom = innerHeight w\<rparr>"

definition pipeHits :: "FlappySettings \<Rightarrow> Window \<Rightarrow> real \<Rightarrow> PipeData \<Rightarrow> bool" where
  "pipeHits st w birdPos pipe =
     ((rright (birdRect birdPos) > rleft (topPipeRect pipe) \<and>
       rleft (birdRect birdPos) < rright (topPipeRect pipe) \<and>
       rtop (birdRect birdPos) < rbottom (topPipeRect pipe)) \<or>
      (rright (birdRect birdPos) > rleft (bottomPipeRect st w pipe) \<and>
       rleft (birdRect birdPos) < rright (bottomPipeRect st w pipe) \<and>
       rbottom (birdRect birdPos) > rtop (bottomPipeRect st w pipe)))"

definition checkCollision :: "FlappySettings \<Rightarrow> Window \<Rightarrow> real \<Rightarrow> PipeData list \<Rightarrow> bool" where
  "checkCollision st w birdPos ps = list_ex (pipeHits st w birdPos) ps"

text \<open>
  The \<open>setPipes\<close> updater of \<open>gameLoop\<close>: every pair moves left by \<open>pipeSpeed\<close>, pairs at or
  left of \<open>-100\<close> are dropped, and the \<open>forEach\<close> over the remaining pairs raises the score
  (and the stored high score) once for every pair that passes the edge test.
\<close>

definition movePipes :: "FlappySettings \<Rightarrow> PipeData list \<Rightarrow> PipeData list" where
  "movePipes st ps =
     filter (\<lambda>pipe. pipe_x pipe > -100)
       (map (\<lambda>pipe. pipe\<lparr>pipe_x := pipe_x pipe - pipeSpeed st\<rparr>) ps)"

definition crossesSlot :: "FlappySettings \<Rightarrow> PipeData \<Rightarrow> bool" where
  "crossesSlot st pipe = (pipe_x pipe + pipeSpeed st \<ge> 96 \<and> pipe_x pipe < 96)"

definition scorePipe :: "FlappySettings \<Rightarrow> int \<times> int \<Rightarrow> PipeData \<Rightarrow> int \<times> int" where
  "scorePipe st sh pipe =
     (if crossesSlot st pipe
      then (let newScore = fst sh + 1 in (newScore, max (snd sh) newScore))
      else sh)"

definition scorePipes :: "FlappySettings \<Rightarrow> int \<times> int \<Rightarrow> PipeData list \<Rightarrow> int \<times> int" where
  "scorePipes st sh newPipes = foldl (scorePipe st) sh newPipes"

text \<open>
  One call of \<open>gameLoop\<close>. The position updater adds the velocity the callback closed over,
  which is the velocity of the state before this frame; the collision test likewise reads the
  position and the pipes of the state before this frame. Every state updater the call queues
  is applied once, to the state before this frame, as in a production build of the
  application.
\<close>

definition gameLoop :: "FlappySettings \<Rightarrow> Window \<Rightarrow> real \<Rightarrow> real \<Rightarrow> FlappyState \<Rightarrow> FlappyState" where
  "gameLoop st w now r s =
     (if \<not> gameStarted s \<or> gameOver s then s
      else
        let frames = frameCount s + 1;
            newPos = birdPosition s + birdVelocity s;
            outside = (newPos < 0 \<or> newPos > innerHeight w - 48);
            newPipes = movePipes st (pipes s);
            sh = scorePipes st (score s, highScore s) newPipes;
            spawn = (now - lastPipe s > pipeSpawnRate st \<and> frames > 60);
            hit = checkCollision st w (birdPosition s) (pipes s)
        in s\<lparr>frameCount := frames,
             birdPosition := (if outside then birdPosition s else newPos),
             birdVelocity := birdVelocity s + gravity st,
             birdRotation := min (birdRotation s + 3) 90,
             pipes := (if spawn then spawnPipe st w now r newPipes else newPipes),
             score := fst sh,
             highScore := snd sh,
             lastPipe := (if spawn then now else lastPipe s),
             gameOver := (outside \<or> hit)\<rparr>)"

section \<open>Lane-crossing game (src/games/crossy-road)\<close>

text \<open>The numeric fields of the game's settings; the colour settings only reach rendering.\<close>

record CrossySettings =
  characterSize :: real
  carSize :: real
  baseCarSpeed :: real
  maxCarSpeed :: real
  carSpawnRate :: real
  levelSpeedIncrease :: real
  levelSpawnIncrease :: real

definition DEFAULT_SETTINGS_crossy :: CrossySettings where
  "DEFAULT_SETTINGS_crossy =
     \<lparr>characterSize = 30, carSize = 40, baseCarSpeed = 2, maxCarSpeed = 10,
      carSpawnRate = 0.02, levelSpeedIncrease = 0.05, levelSpawnIncrease = 0.1\<rparr>"

record Canvas =
  canvas_width :: real
  canvas_height :: real

subsection \<open>components/Character.ts\<close>

record Character =
  char_x :: real
  char_y :: real
  char_size :: real
  isAlive :: bool

text \<open>The constructor \<open>new Character(x, y, settings)\<close>.\<close>

definition newCharacter :: "real \<Rightarrow> real \<Rightarrow> CrossySettings \<Rightarrow> Character" where
  "newCharacter x0 y0 st =
     \<lparr>char_x = x0, char_y = y0, char_size = characterSize st, isAlive = True\<rparr>"

text \<open>\<open>Character.move\<close>: both new coordinates are computed first, then each is tested alone.\<close>

definition move :: "real \<Rightarrow> real \<Rightarrow> real \<Rightarrow> real \<Rightarrow> Character \<Rightarrow> Character" where
  "move dx dy gameWidth gameHeight c =
     (let newX = char_x c + dx * char_size c;
          newY = char_y c + dy * char_size c;
          c1 = (if newX \<ge> 0 \<and> newX + char_size c \<le> gameWidth then c\<lparr>char_x := newX\<rparr> else c)
      in if newY \<ge> 0 \<and> newY + char_size c \<le> gameHeight then c1\<lparr>char_y := newY\<rparr> else c1)"

subsection \<open>components/Obstacle.ts and components/Car.ts\<close>

datatype ObstacleType = rock | tree

record Obstacle =
  obs_x :: real
  obs_y :: real
  obs_size :: real
  obs_type :: ObstacleType

record Car =
  car_x :: real
  car_y :: real
  car_size :: real
  car_width :: real
  car_height :: real
  speed :: real
  direction :: real

text \<open>The constructor \<open>new Car(y, speed, direction, settings)\<close>, which reads the window width.\<close>

definition newCar :: "Window \<Rightarrow> real \<Rightarrow> real \<Rightarrow> real \<Rightarrow> CrossySettings \<Rightarrow> Car" where
  "newCar w y0 sp dir st =
     \<lparr>car_x = (if dir > 0 then - carSize st else innerWidth w), car_y = y0,
      car_size = carSize st, car_width = carSize st, car_height = carSize st / 2,
      speed = sp, direction = dir\<rparr>"

definition update :: "Car \<Rightarrow> Car" where
  "update car = car\<lparr>car_x := car_x car + speed car * direction car\<rparr>"

definition isOffScreen :: "Window \<Rightarrow> Car \<Rightarrow> bool" where
  "isOffScreen w car =
     (if direction car > 0 then car_x car > innerWidth w else car_x car + car_width car < 0)"

subsection \<open>Game.tsx\<close>

record CrossyState =
  character :: "Character option"
  cars :: "Car list"
  obstacles :: "Obstacle list"
  crossyScore :: int
  level :: int
  crossyGameOver :: bool
  lastSpawnTime :: real

text \<open>The \<open>obstacles.some\<close> test of \<open>moveCharacter\<close> on the position the move would reach.\<close>

definition willCollide :: "Character \<Rightarrow> real \<Rightarrow> real \<Rightarrow> Obstacle list \<Rightarrow> bool" where
  "willCollide c newX newY obs =
     list_ex (\<lambda>obstacle.
        newX < obs_x obstacle + obs_size obstacle \<and>
        newX + char_size c > obs_x obstacle \<and>
        newY < obs_y obstacle + obs_size obstacle \<and>
        newY + char_size c > obs_y obstacle) obs"

text \<open>
  \<open>moveCharacter\<close>. The canvas is \<open>None\<close> when \<open>canvasRef.current\<close> is null. The character
  object is mutated in place by \<open>character.move\<close>; the two scoring branches then replace it by
  a fresh object, the remaining case keeps the mutated one.
\<close>

definition moveCharacter ::
  "CrossySettings \<Rightarrow> Canvas option \<Rightarrow> real \<Rightarrow> real \<Rightarrow> CrossyState \<Rightarrow> CrossyState" where
  "moveCharacter st cv dx dy s =
     (case character s of
        None \<Rightarrow> s
      | Some c \<Rightarrow>
          (case cv of
             None \<Rightarrow> s
           | Some canvas \<Rightarrow>
               if crossyGameOver s then s
               else
                 let oldY = char_y c;
                     newX = char_x c + dx * char_size c;
                     newY = char_y c + dy * char_size c;
                     c' = (if \<not> willCollide c newX newY (obstacles s)
                           then move dx dy (canvas_width canvas) (canvas_height canvas) c
                           else c)
                 in if dy < 0 \<and> oldY > 50 \<and> char_y c' \<le> 50
                    then s\<lparr>level := level s + 1, crossyScore := crossyScore s + 100,
                           character := Some (newCharacter (char_x c')
                              (canvas_height canvas - characterSize st - 10) st)\<rparr>
                    else if dy < 0 \<and> char_y c' > 50
                    then s\<lparr>crossyScore := crossyScore s + 10,
                           character := Some (newCharacter (char_x c') (char_y c') st)\<rparr>
                    else s\<lparr>character := Some c'\<rparr>))"

text \<open>
  \<open>checkCollisions\<close>: the boxes it builds, the test on one car, and the loop that stops at
  the first car hit. The result pairs the new state with the returned flag.
\<close>

definition charBox :: "Character \<Rightarrow> Rect" where
  "charBox c = \<lparr>rleft = char_x c, rright = char_x c + char_size c,
                rtop = char_y c, rbottom = char_y c + char_size c\<rparr>"

definition carBox :: "Car \<Rightarrow> Rect" where
  "carBox car = \<lparr>rleft = car_x car, rright = car_x car + car_width car,
                 rtop = car_y car, rbottom = car_y car + car_height car\<rparr>"

definition carHits :: "Character \<Rightarrow> Car \<Rightarrow> bool" where
  "carHits c car =
     (isAlive c \<and>
      rright (charBox c) > rleft (carBox car) \<and>
      rleft (charBox c) < rright (carBox car) \<and>
      rbottom (charBox c) > rtop (carBox car) \<and>
      rtop (charBox c) < rbottom (carBox car))"

definition checkCollisions :: "CrossyState \<Rightarrow> CrossyState \<times> bool" where
  "checkCollisions s =
     (case character s of
        None \<Rightarrow> (s, False)
      | Some c \<Rightarrow>
          if list_ex (carHits c) (cars s)
          then (s\<lparr>crossyGameOver := True, character := Some (c\<lparr>isAlive := False\<rparr>)\<rparr>, True)
          else (s, False))"

subsection \<open>Game.tsx: spawnCar\<close>

text \<open>
  The calls of \<open>Math.random()\<close> one invocation of \<open>spawnCar\<close> makes are numbered from 0, and
  \<open>rnd k\<close> is the value of call \<open>k\<close>. The \<open>do ... while\<close> loop draws lanes until it finds
  one that is not in \<open>usedLanes\<close>; it need not end, so it is a partial function, and \<open>None\<close>
  stands for a call that never returns. It yields the lane and the number of the next call.
\<close>

partial_function (option) pickLane ::
  "(nat \<Rightarrow> real) \<Rightarrow> nat \<Rightarrow> int \<Rightarrow> int set \<Rightarrow> (int \<times> nat) option" where
  "pickLane rnd k numLanes usedLanes =
     (let lane = \<lfloor>rnd k * real_of_int numLanes\<rfloor>
      in if lane \<in> usedLanes then pickLane rnd (k + 1) numLanes usedLanes
         else Some (lane, k + 1))"

declare pickLane.simps [code]

text \<open>
  The \<open>for\<close> loop: \<open>n\<close> iterations remain, each one picks a lane and then draws the direction
  and the speed of the car it appends.
\<close>

fun spawnLoop ::
  "CrossySettings \<Rightarrow> Window \<Rightarrow> int \<Rightarrow> (nat \<Rightarrow> real) \<Rightarrow> int \<Rightarrow> nat \<Rightarrow> nat \<Rightarrow> int set \<Rightarrow> Car list
     \<Rightarrow> Car list option" where
  "spawnLoop st w lvl rnd numLanes 0 k usedLanes newCars = Some newCars"
| "spawnLoop st w lvl rnd numLanes (Suc n) k usedLanes newCars =
     (case pickLane rnd k numLanes usedLanes of
        None \<Rightarrow> None
      | Some (lane, k1) \<Rightarrow>
          let laneHeight = 60;
              y0 = 50 + real_of_int lane * laneHeight + laneHeight / 4;
              dir = (if rnd k1 < 0.5 then 1 else -1);
              baseSpeed = baseCarSpeed st + rnd (k1 + 1) * 3;
              levelMultiplier = 1 + real_of_int lvl * levelSpeedIncrease st;
              sp = min (baseSpeed * levelMultiplier) (maxCarSpeed st)
          in spawnLoop st w lvl rnd numLanes n (k1 + 2) (insert lane usedLanes)
               (newCars @ [newCar w y0 sp dir st]))"

text \<open>
  The number of cars one invocation sets out to spawn. The second random number is drawn only
  when the first one is below the spawn chance.
\<close>

definition carsToSpawn :: "CrossySettings \<Rightarrow> int \<Rightarrow> (nat \<Rightarrow> real) \<Rightarrow> int" where
  "carsToSpawn st lvl rnd =
     (let baseSpawnChance = carSpawnRate st * (1 + real_of_int lvl * levelSpawnIncrease st);
          bonusSpawnChance = real_of_int (lvl div 5) * 0.01;
          totalSpawnChance = min (baseSpawnChance + bonusSpawnChance) 0.2;
          maxCarsToSpawn = min (1 + lvl div 3) 3
      in if rnd 0 < totalSpawnChance then \<lceil>rnd 1 * real_of_int maxCarsToSpawn\<rceil> else 1)"

text \<open>
  \<open>spawnCar\<close> itself, with \<open>now\<close> the value of \<open>performance.now()\<close>. The loop bound is the
  number \<open>carsToSpawn\<close>; a bound of zero or less runs the body no times.
\<close>

definition spawnCar ::
  "CrossySettings \<Rightarrow> Canvas option \<Rightarrow> Window \<Rightarrow> real \<Rightarrow> (nat \<Rightarrow> real) \<Rightarrow> CrossyState
     \<Rightarrow> CrossyState option" where
  "spawnCar st cv w now rnd s =
     (case cv of
        None \<Rightarrow> Some s
      | Some canvas \<Rightarrow>
          let baseSpawnChance =
                carSpawnRate st * (1 + real_of_int (level s) * levelSpawnIncrease st);
              bonusSpawnChance = real_of_int (level s div 5) * 0.01;
              totalSpawnChance = min (baseSpawnChance + bonusSpawnChance) 0.2;
              spawnInterval = 1500 / (1 + real_of_int (level s) * levelSpawnIncrease st)
          in if now - lastSpawnTime s < spawnInterval then Some s
             else
               let laneHeight = 60;
                   numLanes = \<lfloor>(canvas_height canvas - 100) / laneHeight\<rfloor>;
                   k = (if rnd 0 < totalSpawnChance then 2 else 1)
               in (case spawnLoop st w (level s) rnd numLanes
                          (nat (carsToSpawn st (level s) rnd)) k {} [] of
                     None \<Rightarrow> None
                   | Some newCars \<Rightarrow>
                       Some (s\<lparr>lastSpawnTime := now, cars := cars s @ newCars\<rparr>)))"

section \<open>High-score submission (src/games/flappy-bird/Game.tsx, saveHighScore)\<close>

text \<open>A row of the table \<open>rgc_high_scores\<close>, with the columns the client writes.\<close>

record HighScoreRow =
  hs_user_id :: string
  hs_score :: int
  hs_username :: string

text \<open>
  The table is set up by \<open>supabase/migrations/20250207175352_still_cliff.sql\<close>, which
  enables row-level security on it and creates two policies for it: one for \<open>SELECT\<close>, to
  \<open>public\<close> (every role), and one for \<open>INSERT\<close>, to \<open>authenticated\<close>. No policy is created
  for \<open>DELETE\<close>. With row-level security enabled the database applies a command only to rows
  that some policy for that command and the caller's role admits; a command no policy admits
  touches no row and reports no error.
\<close>

datatype Command = Select | Insert | Delete

datatype Role = anon | authenticated

definition rgc_high_scores_policies :: "(Command \<times> Role list) list" where
  "rgc_high_scores_policies = [(Select, [anon, authenticated]), (Insert, [authenticated])]"

definition admits :: "Command \<Rightarrow> Role \<Rightarrow> bool" where
  "admits cmd role =
     list_ex (\<lambda>policy. fst policy = cmd \<and> role \<in> set (snd policy)) rgc_high_scores_policies"

text \<open>
  The four requests \<open>saveHighScore\<close> sends through the Supabase client, on the table as a list
  of rows: \<open>select('score')\<close> in descending order, \<open>delete().eq('score', v)\<close>, \<open>insert(row)\<close>,
  and \<open>select('*')\<close> in descending order with \<open>limit(3)\<close>. Each is applied as the policies
  admit it for the role of the caller.
\<close>

definition selectScoresDesc :: "Role \<Rightarrow> HighScoreRow list \<Rightarrow> int list" where
  "selectScoresDesc role rows =
     (if admits Select role then rev (sort (map hs_score rows)) else [])"

definition deleteByScore :: "Role \<Rightarrow> int \<Rightarrow> HighScoreRow list \<Rightarrow> HighScoreRow list" where
  "deleteByScore role v rows =
     (if admits Delete role then filter (\<lambda>row. hs_score row \<noteq> v) rows else rows)"

definition insertRow :: "Role \<Rightarrow> HighScoreRow \<Rightarrow> HighScoreRow list \<Rightarrow> HighScoreRow list" where
  "insertRow role row rows = (if admits Insert role then rows @ [row] else rows)"

definition selectTop3 :: "Role \<Rightarrow> HighScoreRow list \<Rightarrow> HighScoreRow list" where
  "selectTop3 role rows =
     (if admits Select role then take 3 (sort_key (\<lambda>row. - hs_score row) rows) else [])"

text \<open>
  What the collaborators answer during one submission: the role the client has when the
  submission starts, whether the first query returns data, whether \<open>auth.signUp\<close> reports an
  error, and the user \<open>auth.getUser\<close> returns, if any. Once \<open>auth.getUser\<close> has returned a
  user the client holds that user's session, so the requests after it are made as
  \<open>authenticated\<close>.
\<close>

record Backend =
  callerRole :: Role
  fetchOk :: bool
  signUpError :: bool
  user :: "string option"

text \<open>
  The state one submission can change: the table, the \<open>highScores\<close> and \<open>scoreSubmitted\<close>
  state variables (the latter is the field \<open>submitted\<close>), and whether the rejection notice was
  shown (\<open>alert\<close>).
\<close>

record Board =
  rgc_high_scores :: "HighScoreRow list"
  highScores :: "HighScoreRow list"
  submitted :: bool
  alerted :: bool

text \<open>
  \<open>Math.min(...xs)\<close>, which is \<open>Infinity\<close> on no arguments (\<open>None\<close> here), and the comparison
  \<open>v <= Math.min(...xs)\<close>.
\<close>

fun mathMin :: "int list \<Rightarrow> int option" where
  "mathMin [] = None"
| "mathMin (v # vs) = (case mathMin vs of None \<Rightarrow> Some v | Some m \<Rightarrow> Some (min v m))"

definition leMin :: "int \<Rightarrow> int option \<Rightarrow> bool" where
  "leMin v m = (case m of None \<Rightarrow> True | Some l \<Rightarrow> v \<le> l)"

definition saveHighScore :: "string \<Rightarrow> int \<Rightarrow> Backend \<Rightarrow> Board \<Rightarrow> Board" where
  "saveHighScore username sc be b =
     (if username = [] then b
      else if \<not> fetchOk be then b
      else
        let scores = selectScoresDesc (callerRole be) (rgc_high_scores b)
        in if length scores \<ge> 3 \<and> leMin sc (mathMin scores) then b\<lparr>alerted := True\<rparr>
           else if signUpError be then b
           else (case user be of
                   None \<Rightarrow> b
                 | Some uid \<Rightarrow>
                     let rows1 = (if length scores \<ge> 3
                                  then (case mathMin scores of
                                          None \<Rightarrow> rgc_high_scores b
                                        | Some lowestScore \<Rightarrow>
                                            deleteByScore authenticated lowestScore
                                              (rgc_high_scores b))
                                  else rgc_high_scores b);
                         rows2 = insertRow authenticated
                                   \<lparr>hs_user_id = uid, hs_score = sc, hs_username = username\<rparr> rows1
                     in b\<lparr>rgc_high_scores := rows2, submitted := True,
                          highScores := selectTop3 authenticated rows2\<rparr>))"

section \<open>Properties stated about the two games\<close>

text \<open>
  The overlap test as the specification words it (section 4.4), on two rectangles. It is
  compared below with the tests the two games make, \<open>carHits\<close> and \<open>pipeHits\<close>.
\<close>

definition aabb_overlap :: "Rect \<Rightarrow> Rect \<Rightarrow> bool" where
  "aabb_overlap a b =
     (rright a > rleft b \<and> rleft a < rright b \<and> rbottom a > rtop b \<and> rtop a < rbottom b)"

text \<open>
  What a well-formed pipe pair looks like, on the rectangles \<open>checkCollision\<close> builds for it:
  both segments have the same left and right edge, the opening between the bottom of the top
  segment and the top of the bottom segment is \<open>gapSize\<close>, and each segment is at least 50
  tall.
\<close>

definition pairOk :: "FlappySettings \<Rightarrow> Window \<Rightarrow> PipeData \<Rightarrow> bool" where
  "pairOk st w pipe =
     (rleft (topPipeRect pipe) = rleft (bottomPipeRect st w pipe) \<and>
      rright (topPipeRect pipe) = rright (bottomPipeRect st w pipe) \<and>
      rtop (bottomPipeRect st w pipe) - rbottom (topPipeRect pipe) = gapSize st \<and>
      50 \<le> rbottom (topPipeRect pipe) - rtop (topPipeRect pipe) \<and>
      50 \<le> rbottom (bottomPipeRect st w pipe) - rtop (bottomPipeRect st w pipe))"

text \<open>
  A run of the loop: one call of \<open>gameLoop\<close> per input, an input being the clock value and
  the random number that call reads. The window and the settings do not change during a run.
\<close>

definition frames :: "FlappySettings \<Rightarrow> Window \<Rightarrow> (real \<times> real) list \<Rightarrow> FlappyState \<Rightarrow> FlappyState" where
  "frames st w inputs s = foldl (\<lambda>s' i. gameLoop st w (fst i) (snd i) s') s inputs"

text \<open>
  The \<open>setPipes\<close> updater of \<open>gameLoop\<close> run for a number of frames on a list of pairs, a
  score and a high score, with no pair spawned in between: what happens to the pairs already
  on screen, frame after frame.
\<close>

fun pipeFrames :: "FlappySettings \<Rightarrow> nat \<Rightarrow> PipeData list \<times> int \<times> int \<Rightarrow> PipeData list \<times> int \<times> int" where
  "pipeFrames st 0 z = z"
| "pipeFrames st (Suc n) (ps, sh) =
     pipeFrames st n (movePipes st ps, scorePipes st sh (movePipes st ps))"

text \<open>
  Two counts used to state what a run does to the score: the pairs of a list that are still
  at or right of the bird's slot (\<open>x \<ge> 96\<close>), and the number of frames of a run on which
  \<open>gameLoop\<close> calls \<open>spawnPipe\<close>, by the condition \<open>gameLoop\<close> itself tests.
\<close>

definition pending :: "PipeData list \<Rightarrow> nat" where
  "pending ps = length (filter (\<lambda>pipe. 96 \<le> pipe_x pipe) ps)"

fun spawnsIn :: "FlappySettings \<Rightarrow> Window \<Rightarrow> (real \<times> real) list \<Rightarrow> FlappyState \<Rightarrow> nat" where
  "spawnsIn st w [] s = 0"
| "spawnsIn st w (i # inputs) s =
     (if gameStarted s \<and> \<not> gameOver s
         \<and> fst i - lastPipe s > pipeSpawnRate st \<and> frameCount s + 1 > 60
      then 1 else 0)
     + spawnsIn st w inputs (gameLoop st w (fst i) (snd i) s)"

text \<open>
  The play-field invariant of the character, a sequence of calls of \<open>Character.move\<close>, and a
  sequence of move requests handled by \<open>moveCharacter\<close> on a fixed canvas. \<open>charOk\<close> says that
  the game has a character, that its size is the configured one, and that it is in bounds.
\<close>

definition inBounds :: "real \<Rightarrow> real \<Rightarrow> Character \<Rightarrow> bool" where
  "inBounds gameWidth gameHeight c =
     (0 \<le> char_x c \<and> char_x c \<le> gameWidth - char_size c \<and>
      0 \<le> char_y c \<and> char_y c \<le> gameHeight - char_size c)"

definition moves :: "real \<Rightarrow> real \<Rightarrow> Character \<Rightarrow> (real \<times> real) list \<Rightarrow> Character" where
  "moves gameWidth gameHeight c ms =
     foldl (\<lambda>c' m. move (fst m) (snd m) gameWidth gameHeight c') c ms"

definition requests :: "CrossySettings \<Rightarrow> Canvas \<Rightarrow> CrossyState \<Rightarrow> (real \<times> real) list \<Rightarrow> CrossyState" where
  "requests st canvas s ms =
     foldl (\<lambda>s' m. moveCharacter st (Some canvas) (fst m) (snd m) s') s ms"

definition charOk :: "CrossySettings \<Rightarrow> Canvas \<Rightarrow> CrossyState \<Rightarrow> bool" where
  "charOk st canvas s =
     (case character s of None \<Rightarrow> False
      | Some c \<Rightarrow> char_size c = characterSize st \<and>
                  inBounds (canvas_width canvas) (canvas_height canvas) c)"

section \<open>Bird integration\<close>

text \<open>
  C1. The claim has one frame add gravity to the velocity first and then add the updated
  velocity to the position, so that position 300 with velocity 0 and gravity 0.6 becomes
  300.6. The code adds the velocity of the previous state: the position stays at 300 after
  that frame while the velocity becomes 0.6.
\<close>

theorem gameLoop_scenarioC_counterexample:
  "birdPosition (gameLoop DEFAULT_SETTINGS \<lparr>innerWidth = 1200, innerHeight = 800\<rparr> 0 0
     \<lparr>gameStarted = True, gameOver = False, scoreSubmitted = False, birdPosition = 300,
      birdVelocity = 0, birdRotation = 0, pipes = [], score = 0, highScore = 0,
      lastPipe = 0, frameCount = 0\<rparr>) \<noteq> 300.6"
  by (simp add: gameLoop_def DEFAULT_SETTINGS_def movePipes_def scorePipes_def
      checkCollision_def Let_def)

text \<open>
  C1, amended. One frame of the running loop adds the velocity held before the frame to the
  position (when the sum lies in \<open>[0, innerHeight - 48]\<close>) and adds gravity to the velocity;
  a bird at 300 with velocity 0 and gravity 0.6, in a field at least 348 high, has velocity
  0.6 and position 300 after one frame.
\<close>

theorem gameLoop_integrates_previous_velocity:
  assumes "gameStarted s" and "\<not> gameOver s"
    and "0 \<le> birdPosition s + birdVelocity s"
    and "birdPosition s + birdVelocity s \<le> innerHeight w - 48"
  shows "birdVelocity (gameLoop st w now r s) = birdVelocity s + gravity st
       \<and> birdPosition (gameLoop st w now r s) = birdPosition s + birdVelocity s
       \<and> (birdPosition s = 300 \<and> birdVelocity s = 0 \<and> gravity st = 0.6 \<longrightarrow>
            birdVelocity (gameLoop st w now r s) = 0.6
          \<and> birdPosition (gameLoop st w now r s) = 300)"
  using assms by (simp add: gameLoop_def Let_def)

theorem gameLoop_integrates_previous_velocity_witness:
  "birdVelocity (gameLoop DEFAULT_SETTINGS \<lparr>innerWidth = 1200, innerHeight = 800\<rparr> 0 0
     \<lparr>gameStarted = True, gameOver = False, scoreSubmitted = False, birdPosition = 300,
      birdVelocity = 0, birdRotation = 0, pipes = [], score = 0, highScore = 0,
      lastPipe = 0, frameCount = 0\<rparr>) = 0.6
   \<and> birdPosition (gameLoop DEFAULT_SETTINGS \<lparr>innerWidth = 1200, innerHeight = 800\<rparr> 0 0
     \<lparr>gameStarted = True, gameOver = False, scoreSubmitted = False, birdPosition = 300,
      birdVelocity = 0, birdRotation = 0, pipes = [], score = 0, highScore = 0,
      lastPipe = 0, frameCount = 0\<rparr>) = 300"
  using gameLoop_integrates_previous_velocity
    [of "\<lparr>gameStarted = True, gameOver = False, scoreSubmitted = False, birdPosition = 300,
      birdVelocity = 0, birdRotation = 0, pipes = [], score = 0, highScore = 0,
      lastPipe = 0, frameCount = 0\<rparr>" "\<lparr>innerWidth = 1200, innerHeight = 800\<rparr>"
      DEFAULT_SETTINGS 0 0]
  by (simp add: DEFAULT_SETTINGS_def)

section \<open>Bounds check\<close>

text \<open>
  C4. In every frame the running loop executes, if the new position
  \<open>birdPosition + birdVelocity\<close> is below 0 or above \<open>innerHeight - 48\<close>, the game-over flag is
  set and the position keeps the value it had before the frame; in particular a previous
  position that was not negative is still not negative.
\<close>

theorem gameLoop_out_of_bounds_keeps_position:
  assumes "gameStarted s" and "\<not> gameOver s"
    and "birdPosition s + birdVelocity s < 0
         \<or> birdPosition s + birdVelocity s > innerHeight w - 48"
  shows "gameOver (gameLoop st w now r s)
       \<and> birdPosition (gameLoop st w now r s) = birdPosition s
       \<and> (0 \<le> birdPosition s \<longrightarrow> 0 \<le> birdPosition (gameLoop st w now r s))"
  using assms by (auto simp add: gameLoop_def Let_def)

theorem gameLoop_out_of_bounds_keeps_position_witness:
  "(4::real) + (-9) = -5
   \<and> gameOver (gameLoop DEFAULT_SETTINGS \<lparr>innerWidth = 1200, innerHeight = 800\<rparr> 0 0
     \<lparr>gameStarted = True, gameOver = False, scoreSubmitted = False, birdPosition = 4,
      birdVelocity = -9, birdRotation = -30, pipes = [], score = 0, highScore = 0,
      lastPipe = 0, frameCount = 0\<rparr>)
   \<and> birdPosition (gameLoop DEFAULT_SETTINGS \<lparr>innerWidth = 1200, innerHeight = 800\<rparr> 0 0
     \<lparr>gameStarted = True, gameOver = False, scoreSubmitted = False, birdPosition = 4,
      birdVelocity = -9, birdRotation = -30, pipes = [], score = 0, highScore = 0,
      lastPipe = 0, frameCount = 0\<rparr>) = 4"
  using gameLoop_out_of_bounds_keeps_position
    [of "\<lparr>gameStarted = True, gameOver = False, scoreSubmitted = False, birdPosition = 4,
      birdVelocity = -9, birdRotation = -30, pipes = [], score = 0, highScore = 0,
      lastPipe = 0, frameCount = 0\<rparr>" "\<lparr>innerWidth = 1200, innerHeight = 800\<rparr>"
      DEFAULT_SETTINGS 0 0]
  by simp

section \<open>Lane-crossing game: boundary clamp\<close>

lemma move_size: "char_size (move dx dy W H c) = char_size c"
  by (simp add: move_def Let_def)

lemma move_inBounds: "inBounds W H c \<Longrightarrow> inBounds W H (move dx dy W H c)"
  by (simp add: inBounds_def move_def Let_def)

lemma moves_inBounds: "inBounds W H c \<Longrightarrow> inBounds W H (moves W H c ms)"
  unfolding moves_def
  by (induction ms arbitrary: c) (simp_all add: move_inBounds)

lemma move_x: "char_x (move dx dy W H c) =
   (if 0 \<le> char_x c + dx * char_size c \<and> char_x c + dx * char_size c + char_size c \<le> W
    then char_x c + dx * char_size c else char_x c)"
  by (simp add: move_def Let_def)

lemma move_y: "char_y (move dx dy W H c) =
   (if 0 \<le> char_y c + dy * char_size c \<and> char_y c + dy * char_size c + char_size c \<le> H
    then char_y c + dy * char_size c else char_y c)"
  by (simp add: move_def Let_def)

lemma moveCharacter_charOk:
  assumes "charOk st canvas s"
  shows "charOk st canvas (moveCharacter st (Some canvas) dx dy s)"
proof (cases "character s")
  case None
  then show ?thesis using assms by (simp add: charOk_def)
next
  case (Some c)
  let ?W = "canvas_width canvas" and ?H = "canvas_height canvas"
  have sz: "char_size c = characterSize st" and ib: "inBounds ?W ?H c"
    using assms Some by (simp_all add: charOk_def)
  define c' where "c' = (if \<not> willCollide c (char_x c + dx * char_size c)
       (char_y c + dy * char_size c) (obstacles s) then move dx dy ?W ?H c else c)"
  have ib': "inBounds ?W ?H c'" and sz': "char_size c' = characterSize st"
    using ib sz by (simp_all add: c'_def move_inBounds move_size)
  have fresh: "inBounds ?W ?H (newCharacter (char_x c') (char_y c') st)"
    using ib' sz' by (simp add: inBounds_def newCharacter_def)
  have respawn: "inBounds ?W ?H (newCharacter (char_x c') (?H - characterSize st - 10) st)"
    if "char_y c > 50"
    using ib ib' sz sz' that by (simp add: inBounds_def newCharacter_def)
  have eq: "moveCharacter st (Some canvas) dx dy s =
     (if crossyGameOver s then s
      else if dy < 0 \<and> char_y c > 50 \<and> char_y c' \<le> 50
        then s\<lparr>level := level s + 1, crossyScore := crossyScore s + 100,
               character := Some (newCharacter (char_x c') (?H - characterSize st - 10) st)\<rparr>
      else if dy < 0 \<and> char_y c' > 50
        then s\<lparr>crossyScore := crossyScore s + 10,
               character := Some (newCharacter (char_x c') (char_y c') st)\<rparr>
      else s\<lparr>character := Some c'\<rparr>)"
    using Some by (simp add: moveCharacter_def Let_def c'_def)
  show ?thesis
    unfolding eq using assms ib' sz' fresh respawn
    by (simp add: charOk_def newCharacter_def)
qed

lemma requests_charOk: "charOk st canvas s \<Longrightarrow> charOk st canvas (requests st canvas s ms)"
  unfolding requests_def
  by (induction ms arbitrary: s) (simp_all add: moveCharacter_charOk)

text \<open>
  C3. A character that is inside the play field stays inside it under every sequence of
  moves: \<open>char_x\<close> stays in \<open>[0, width - size]\<close> and \<open>char_y\<close> in \<open>[0, height - size]\<close>, both for
  direct calls of \<open>Character.move\<close> and for move requests through \<open>moveCharacter\<close> (including
  the respawn at the start row). Each axis is decided alone: the new x is taken exactly when
  it is in range, whatever happens to y, and the same for y.
\<close>

theorem character_stays_in_field:
  assumes "character s = Some c" and "char_size c = characterSize st"
    and "inBounds (canvas_width canvas) (canvas_height canvas) c"
  shows "inBounds (canvas_width canvas) (canvas_height canvas)
           (moves (canvas_width canvas) (canvas_height canvas) c ms)
       \<and> charOk st canvas (requests st canvas s ms)
       \<and> char_x (move dx dy (canvas_width canvas) (canvas_height canvas) c) =
           (if 0 \<le> char_x c + dx * char_size c
               \<and> char_x c + dx * char_size c + char_size c \<le> canvas_width canvas
            then char_x c + dx * char_size c else char_x c)
       \<and> char_y (move dx dy (canvas_width canvas) (canvas_height canvas) c) =
           (if 0 \<le> char_y c + dy * char_size c
               \<and> char_y c + dy * char_size c + char_size c \<le> canvas_height canvas
            then char_y c + dy * char_size c else char_y c)"
proof -
  have "charOk st canvas s"
    using assms by (simp add: charOk_def)
  then have "charOk st canvas (requests st canvas s ms)"
    by (rule requests_charOk)
  then show ?thesis
    using assms(3) by (simp add: moves_inBounds move_x move_y)
qed

theorem character_stays_in_field_witness:
  "inBounds 800 560
     (moves 800 560 \<lparr>char_x = 100, char_y = 100, char_size = 30, isAlive = True\<rparr>
        [(0, -1), (-1, 0), (-1, 0), (-1, 0), (-1, 0)])
   \<and> char_x (move (-1) (-1) 800 560
        \<lparr>char_x = 10, char_y = 70, char_size = 30, isAlive = True\<rparr>) = 10
   \<and> char_y (move (-1) (-1) 800 560
        \<lparr>char_x = 10, char_y = 70, char_size = 30, isAlive = True\<rparr>) = 40
   \<and> charOk DEFAULT_SETTINGS_crossy \<lparr>canvas_width = 800, canvas_height = 560\<rparr>
        (requests DEFAULT_SETTINGS_crossy \<lparr>canvas_width = 800, canvas_height = 560\<rparr>
           \<lparr>character = Some \<lparr>char_x = 100, char_y = 100, char_size = 30, isAlive = True\<rparr>,
            cars = [], obstacles = [], crossyScore = 0, level = 1, crossyGameOver = False,
            lastSpawnTime = 0\<rparr>
           [(0, -1), (-1, 0), (-1, 0), (-1, 0), (-1, 0)])"
  using character_stays_in_field
    [of "\<lparr>character = Some \<lparr>char_x = 100, char_y = 100, char_size = 30, isAlive = True\<rparr>,
            cars = [], obstacles = [], crossyScore = 0, level = 1, crossyGameOver = False,
            lastSpawnTime = 0\<rparr>"
        "\<lparr>char_x = 100, char_y = 100, char_size = 30, isAlive = True\<rparr>"
        DEFAULT_SETTINGS_crossy "\<lparr>canvas_width = 800, canvas_height = 560\<rparr>"
        "[(0, -1), (-1, 0), (-1, 0), (-1, 0), (-1, 0)]"]
  by (simp add: DEFAULT_SETTINGS_crossy_def inBounds_def move_def Let_def)

section \<open>Lane-crossing game: forward scoring\<close>

text \<open>
  C6. For an accepted upward request (no obstacle overlap, \<open>dy < 0\<close>): if the move takes the
  character from \<open>y > 50\<close> to \<open>y \<le> 50\<close>, the level goes up by one, the score by exactly 100, and
  the character is recreated with \<open>y = canvas height - characterSize - 10\<close>; if the character
  is still below the finish line after the move (\<open>y > 50\<close>), the score goes up by exactly 10
  and the level is unchanged.
\<close>

theorem moveCharacter_forward_scoring:
  assumes "character s = Some c" and "\<not> crossyGameOver s"
    and "\<not> willCollide c (char_x c + dx * char_size c) (char_y c + dy * char_size c)
            (obstacles s)"
    and "dy < 0"
  shows "(char_y c > 50
          \<and> char_y (move dx dy (canvas_width canvas) (canvas_height canvas) c) \<le> 50 \<longrightarrow>
            level (moveCharacter st (Some canvas) dx dy s) = level s + 1
          \<and> crossyScore (moveCharacter st (Some canvas) dx dy s) = crossyScore s + 100
          \<and> character (moveCharacter st (Some canvas) dx dy s) =
              Some \<lparr>char_x = char_x (move dx dy (canvas_width canvas) (canvas_height canvas) c),
                    char_y = canvas_height canvas - characterSize st - 10,
                    char_size = characterSize st, isAlive = True\<rparr>)
       \<and> (char_y (move dx dy (canvas_width canvas) (canvas_height canvas) c) > 50 \<longrightarrow>
            crossyScore (moveCharacter st (Some canvas) dx dy s) = crossyScore s + 10
          \<and> level (moveCharacter st (Some canvas) dx dy s) = level s
          \<and> map_option char_y (character (moveCharacter st (Some canvas) dx dy s)) =
              Some (char_y (move dx dy (canvas_width canvas) (canvas_height canvas) c)))"
  using assms by (simp add: moveCharacter_def Let_def newCharacter_def)

theorem moveCharacter_forward_scoring_witness:
  "level (moveCharacter DEFAULT_SETTINGS_crossy
       (Some \<lparr>canvas_width = 800, canvas_height = 560\<rparr>) 0 (-1)
       \<lparr>character = Some \<lparr>char_x = 100, char_y = 60, char_size = 30, isAlive = True\<rparr>,
        cars = [], obstacles = [], crossyScore = 40, level = 1, crossyGameOver = False,
        lastSpawnTime = 0\<rparr>) = 2
   \<and> crossyScore (moveCharacter DEFAULT_SETTINGS_crossy
       (Some \<lparr>canvas_width = 800, canvas_height = 560\<rparr>) 0 (-1)
       \<lparr>character = Some \<lparr>char_x = 100, char_y = 60, char_size = 30, isAlive = True\<rparr>,
        cars = [], obstacles = [], crossyScore = 40, level = 1, crossyGameOver = False,
        lastSpawnTime = 0\<rparr>) = 140
   \<and> character (moveCharacter DEFAULT_SETTINGS_crossy
       (Some \<lparr>canvas_width = 800, canvas_height = 560\<rparr>) 0 (-1)
       \<lparr>character = Some \<lparr>char_x = 100, char_y = 60, char_size = 30, isAlive = True\<rparr>,
        cars = [], obstacles = [], crossyScore = 40, level = 1, crossyGameOver = False,
        lastSpawnTime = 0\<rparr>)
       = Some \<lparr>char_x = 100, char_y = 520, char_size = 30, isAlive = True\<rparr>
   \<and> crossyScore (moveCharacter DEFAULT_SETTINGS_crossy
       (Some \<lparr>canvas_width = 800, canvas_height = 560\<rparr>) 0 (-1)
       \<lparr>character = Some \<lparr>char_x = 100, char_y = 520, char_size = 30, isAlive = True\<rparr>,
        cars = [], obstacles = [], crossyScore = 0, level = 1, crossyGameOver = False,
        lastSpawnTime = 0\<rparr>) = 10
   \<and> level (moveCharacter DEFAULT_SETTINGS_crossy
       (Some \<lparr>canvas_width = 800, canvas_height = 560\<rparr>) 0 (-1)
       \<lparr>character = Some \<lparr>char_x = 100, char_y = 520, char_size = 30, isAlive = True\<rparr>,
        cars = [], obstacles = [], crossyScore = 0, level = 1, crossyGameOver = False,
        lastSpawnTime = 0\<rparr>) = 1"
  using moveCharacter_forward_scoring
    [of "\<lparr>character = Some \<lparr>char_x = 100, char_y = 60, char_size = 30, isAlive = True\<rparr>,
        cars = [], obstacles = [], crossyScore = 40, level = 1, crossyGameOver = False,
        lastSpawnTime = 0\<rparr>"
        "\<lparr>char_x = 100, char_y = 60, char_size = 30, isAlive = True\<rparr>" 0 "-1"
        "\<lparr>canvas_width = 800, canvas_height = 560\<rparr>" DEFAULT_SETTINGS_crossy]
    moveCharacter_forward_scoring
    [of "\<lparr>character = Some \<lparr>char_x = 100, char_y = 520, char_size = 30, isAlive = True\<rparr>,
        cars = [], obstacles = [], crossyScore = 0, level = 1, crossyGameOver = False,
        lastSpawnTime = 0\<rparr>"
        "\<lparr>char_x = 100, char_y = 520, char_size = 30, isAlive = True\<rparr>" 0 "-1"
        "\<lparr>canvas_width = 800, canvas_height = 560\<rparr>" DEFAULT_SETTINGS_crossy]
  by (simp add: DEFAULT_SETTINGS_crossy_def willCollide_def move_def Let_def)

section \<open>Lane-crossing game: requests into an obstacle\<close>

text \<open>
  C2. The claim says a request whose resulting box overlaps an obstacle changes nothing, and
  gives scenario A as an instance. In scenario A the resulting box, \<open>(100,70)-(130,100)\<close>,
  only touches the obstacle at \<open>(100,100)\<close>, so the strict test lets the request through and
  the character moves to \<open>(100,70)\<close>. With the obstacle at \<open>(100,80)\<close> the request is rejected,
  yet the score still rises by 10.
\<close>

theorem moveCharacter_scenarioA_counterexample:
  "character (moveCharacter DEFAULT_SETTINGS_crossy
       (Some \<lparr>canvas_width = 800, canvas_height = 560\<rparr>) 0 (-1)
       \<lparr>character = Some \<lparr>char_x = 100, char_y = 100, char_size = 30, isAlive = True\<rparr>,
        cars = [],
        obstacles = [\<lparr>obs_x = 100, obs_y = 100, obs_size = 30, obs_type = rock\<rparr>],
        crossyScore = 0, level = 1, crossyGameOver = False, lastSpawnTime = 0\<rparr>)
     = Some \<lparr>char_x = 100, char_y = 70, char_size = 30, isAlive = True\<rparr>
   \<and> willCollide \<lparr>char_x = 100, char_y = 100, char_size = 30, isAlive = True\<rparr>
        (100 + 0 * 30) (100 + (-1) * 30)
        [\<lparr>obs_x = 100, obs_y = 80, obs_size = 30, obs_type = rock\<rparr>]
   \<and> crossyScore (moveCharacter DEFAULT_SETTINGS_crossy
       (Some \<lparr>canvas_width = 800, canvas_height = 560\<rparr>) 0 (-1)
       \<lparr>character = Some \<lparr>char_x = 100, char_y = 100, char_size = 30, isAlive = True\<rparr>,
        cars = [],
        obstacles = [\<lparr>obs_x = 100, obs_y = 80, obs_size = 30, obs_type = rock\<rparr>],
        crossyScore = 0, level = 1, crossyGameOver = False, lastSpawnTime = 0\<rparr>) = 10"
  by (simp add: moveCharacter_def DEFAULT_SETTINGS_crossy_def willCollide_def move_def
      newCharacter_def Let_def)

text \<open>
  C2, amended. For every move request whose resulting bounding box strictly overlaps some
  static obstacle, the character's position and the level are exactly as before the request.
\<close>

theorem moveCharacter_blocked_keeps_position:
  assumes "character s = Some c"
    and "willCollide c (char_x c + dx * char_size c) (char_y c + dy * char_size c)
           (obstacles s)"
  shows "map_option char_x (character (moveCharacter st cv dx dy s)) = Some (char_x c)
       \<and> map_option char_y (character (moveCharacter st cv dx dy s)) = Some (char_y c)
       \<and> level (moveCharacter st cv dx dy s) = level s"
  using assms
  by (cases cv) (auto simp add: moveCharacter_def Let_def newCharacter_def)

theorem moveCharacter_blocked_keeps_position_witness:
  "map_option char_x (character (moveCharacter DEFAULT_SETTINGS_crossy
       (Some \<lparr>canvas_width = 800, canvas_height = 560\<rparr>) 0 (-1)
       \<lparr>character = Some \<lparr>char_x = 100, char_y = 100, char_size = 30, isAlive = True\<rparr>,
        cars = [],
        obstacles = [\<lparr>obs_x = 100, obs_y = 80, obs_size = 30, obs_type = rock\<rparr>],
        crossyScore = 0, level = 1, crossyGameOver = False, lastSpawnTime = 0\<rparr>)) = Some 100
   \<and> map_option char_y (character (moveCharacter DEFAULT_SETTINGS_crossy
       (Some \<lparr>canvas_width = 800, canvas_height = 560\<rparr>) 0 (-1)
       \<lparr>character = Some \<lparr>char_x = 100, char_y = 100, char_size = 30, isAlive = True\<rparr>,
        cars = [],
        obstacles = [\<lparr>obs_x = 100, obs_y = 80, obs_size = 30, obs_type = rock\<rparr>],
        crossyScore = 0, level = 1, crossyGameOver = False, lastSpawnTime = 0\<rparr>)) = Some 100
   \<and> level (moveCharacter DEFAULT_SETTINGS_crossy
       (Some \<lparr>canvas_width = 800, canvas_height = 560\<rparr>) 0 (-1)
       \<lparr>character = Some \<lparr>char_x = 100, char_y = 100, char_size = 30, isAlive = True\<rparr>,
        cars = [],
        obstacles = [\<lparr>obs_x = 100, obs_y = 80, obs_size = 30, obs_type = rock\<rparr>],
        crossyScore = 0, level = 1, crossyGameOver = False, lastSpawnTime = 0\<rparr>) = 1"
  using moveCharacter_blocked_keeps_position
    [of "\<lparr>character = Some \<lparr>char_x = 100, char_y = 100, char_size = 30, isAlive = True\<rparr>,
        cars = [],
        obstacles = [\<lparr>obs_x = 100, obs_y = 80, obs_size = 30, obs_type = rock\<rparr>],
        crossyScore = 0, level = 1, crossyGameOver = False, lastSpawnTime = 0\<rparr>"
        "\<lparr>char_x = 100, char_y = 100, char_size = 30, isAlive = True\<rparr>" 0 "-1"
        DEFAULT_SETTINGS_crossy "Some \<lparr>canvas_width = 800, canvas_height = 560\<rparr>"]
  by (simp add: willCollide_def)


section \<open>Collision tests\<close>

text \<open>
  C5. The claim says both games decide collision by the four-comparison overlap test. The
  pipe game compares only one vertical edge per segment; for a bird at 300 in a window 300
  high it reports a hit on a pair whose segments the four-comparison test does not overlap.
\<close>

theorem checkCollision_not_aabb_counterexample:
  "checkCollision DEFAULT_SETTINGS \<lparr>innerWidth = 1200, innerHeight = 300\<rparr> 300
     [\<lparr>pipe_id = 0, pipe_x = 100, pipe_height = 40, showLogo = False\<rparr>]
   \<and> \<not> (aabb_overlap (birdRect 300)
            (topPipeRect \<lparr>pipe_id = 0, pipe_x = 100, pipe_height = 40, showLogo = False\<rparr>)
        \<or> aabb_overlap (birdRect 300)
            (bottomPipeRect DEFAULT_SETTINGS \<lparr>innerWidth = 1200, innerHeight = 300\<rparr>
               \<lparr>pipe_id = 0, pipe_x = 100, pipe_height = 40, showLogo = False\<rparr>))"
  by (simp add: checkCollision_def pipeHits_def aabb_overlap_def birdRect_def topPipeRect_def
      bottomPipeRect_def DEFAULT_SETTINGS_def)

lemma aabb_overlap_sym: "aabb_overlap a b = aabb_overlap b a"
  by (auto simp add: aabb_overlap_def)

lemma pipeHits_aabb:
  assumes "- 48 < birdPos" and "birdPos < innerHeight w"
  shows "pipeHits st w birdPos pipe =
     (aabb_overlap (birdRect birdPos) (topPipeRect pipe)
      \<or> aabb_overlap (birdRect birdPos) (bottomPipeRect st w pipe))"
  using assms
  by (auto simp add: pipeHits_def aabb_overlap_def birdRect_def topPipeRect_def
      bottomPipeRect_def)

text \<open>
  C5, amended. The lane-crossing game decides a hit on a car by the strict four-comparison
  overlap test between the box of a live character and the box of the car. The pipe game
  tests the horizontal overlap and one vertical edge per segment, which agrees with the
  four-comparison test on both segments whenever the bird's position is above \<open>-48\<close> and
  below the window height. The four-comparison predicate is symmetric in its two rectangles.
\<close>

theorem collision_tests_agree_with_aabb:
  assumes "- 48 < birdPos" and "birdPos < innerHeight w"
  shows "carHits c car = (isAlive c \<and> aabb_overlap (charBox c) (carBox car))
       \<and> checkCollision st w birdPos ps =
           list_ex (\<lambda>pipe. aabb_overlap (birdRect birdPos) (topPipeRect pipe)
                         \<or> aabb_overlap (birdRect birdPos) (bottomPipeRect st w pipe)) ps
       \<and> aabb_overlap a b = aabb_overlap b a"
proof -
  have "carHits c car = (isAlive c \<and> aabb_overlap (charBox c) (carBox car))"
    by (simp add: carHits_def aabb_overlap_def)
  moreover have "checkCollision st w birdPos ps =
           list_ex (\<lambda>pipe. aabb_overlap (birdRect birdPos) (topPipeRect pipe)
                         \<or> aabb_overlap (birdRect birdPos) (bottomPipeRect st w pipe)) ps"
  proof -
    have "pipeHits st w birdPos =
            (\<lambda>pipe. aabb_overlap (birdRect birdPos) (topPipeRect pipe)
                  \<or> aabb_overlap (birdRect birdPos) (bottomPipeRect st w pipe))"
      by (rule ext) (rule pipeHits_aabb[OF assms])
    then show ?thesis by (simp add: checkCollision_def)
  qed
  ultimately show ?thesis
    using aabb_overlap_sym by blast
qed

theorem collision_tests_agree_with_aabb_witness:
  "carHits \<lparr>char_x = 100, char_y = 125, char_size = 30, isAlive = True\<rparr>
       \<lparr>car_x = 120, car_y = 125, car_size = 40, car_width = 40, car_height = 20,
        speed = 2, direction = 1\<rparr>
   \<and> aabb_overlap
       (carBox \<lparr>car_x = 120, car_y = 125, car_size = 40, car_width = 40, car_height = 20,
        speed = 2, direction = 1\<rparr>)
       (charBox \<lparr>char_x = 100, char_y = 125, char_size = 30, isAlive = True\<rparr>)
   \<and> checkCollision DEFAULT_SETTINGS \<lparr>innerWidth = 1200, innerHeight = 800\<rparr> 300
       [\<lparr>pipe_id = 0, pipe_x = 100, pipe_height = 310, showLogo = False\<rparr>]
   \<and> aabb_overlap (birdRect 300)
       (topPipeRect \<lparr>pipe_id = 0, pipe_x = 100, pipe_height = 310, showLogo = False\<rparr>)"
  using collision_tests_agree_with_aabb
    [of 300 "\<lparr>innerWidth = 1200, innerHeight = 800\<rparr>"
        "\<lparr>char_x = 100, char_y = 125, char_size = 30, isAlive = True\<rparr>"
        "\<lparr>car_x = 120, car_y = 125, car_size = 40, car_width = 40, car_height = 20,
        speed = 2, direction = 1\<rparr>" DEFAULT_SETTINGS
        "[\<lparr>pipe_id = 0, pipe_x = 100, pipe_height = 310, showLogo = False\<rparr>]"
        "charBox \<lparr>char_x = 100, char_y = 125, char_size = 30, isAlive = True\<rparr>"
        "carBox \<lparr>car_x = 120, car_y = 125, car_size = 40, car_width = 40, car_height = 20,
        speed = 2, direction = 1\<rparr>"]
  by (simp add: aabb_overlap_def charBox_def carBox_def birdRect_def topPipeRect_def
      bottomPipeRect_def DEFAULT_SETTINGS_def)

section \<open>Pipe pairs\<close>

lemma pairOk_height:
  "pairOk st w pipe = (50 \<le> pipe_height pipe \<and> pipe_height pipe \<le> innerHeight w - gapSize st - 50)"
  by (auto simp add: pairOk_def topPipeRect_def bottomPipeRect_def)

lemma movePipes_pairOk:
  "list_all (pairOk st w) ps \<Longrightarrow> list_all (pairOk st w) (movePipes st ps)"
  by (induction ps) (simp_all add: movePipes_def pairOk_height)

lemma spawn_height:
  fixes r :: real
  assumes "0 \<le> r" and "r < 1" and "50 \<le> m"
  shows "50 \<le> r * (m - 50) + 50 \<and> r * (m - 50) + 50 \<le> m"
proof -
  have a: "0 \<le> r * (m - 50)" using assms by simp
  have "r * (m - 50) \<le> 1 * (m - 50)"
    using assms by (intro mult_right_mono) simp_all
  then show ?thesis using a by simp
qed

lemma spawnPipe_pairOk:
  assumes "0 \<le> r" and "r < 1" and "gapSize st + 100 \<le> innerHeight w"
    and "list_all (pairOk st w) ps"
  shows "list_all (pairOk st w) (spawnPipe st w now r ps)"
proof -
  have "50 \<le> innerHeight w - gapSize st - 50" using assms(3) by simp
  from spawn_height[OF assms(1,2) this] assms(4) show ?thesis
    by (simp add: spawnPipe_def Let_def pairOk_height)
qed

lemma gameLoop_pairOk:
  assumes "0 \<le> r" and "r < 1" and "gapSize st + 100 \<le> innerHeight w"
    and "list_all (pairOk st w) (pipes s)"
  shows "list_all (pairOk st w) (pipes (gameLoop st w now r s))"
  using assms
  by (simp add: gameLoop_def Let_def movePipes_pairOk spawnPipe_pairOk)

text \<open>
  C8. In a window at least \<open>gapSize + 100\<close> high, with every random number in \<open>[0, 1)\<close>, every
  pipe pair in the state after any run of the loop is well formed (same x for both segments,
  an opening of exactly \<open>gapSize\<close>, both segments at least 50 tall), provided the pairs of the
  starting state are; the starting state of a game has none.
\<close>

theorem pipe_pairs_keep_gap:
  assumes "gapSize st + 100 \<le> innerHeight w"
    and "\<forall>i \<in> set inputs. 0 \<le> snd i \<and> snd i < 1"
    and "list_all (pairOk st w) (pipes s)"
  shows "list_all (pairOk st w) (pipes (frames st w inputs s))"
  using assms(2,3) unfolding frames_def
proof (induction inputs arbitrary: s)
  case Nil
  then show ?case by simp
next
  case (Cons i inputs)
  have "list_all (pairOk st w) (pipes (gameLoop st w (fst i) (snd i) s))"
    using Cons.prems assms(1) by (simp add: gameLoop_pairOk)
  then show ?case using Cons by simp
qed

theorem pipe_pairs_keep_gap_witness:
  "pipes (frames DEFAULT_SETTINGS \<lparr>innerWidth = 1200, innerHeight = 800\<rparr>
     [(2000, 0.5), (2016, 0.1)]
     \<lparr>gameStarted = True, gameOver = False, scoreSubmitted = False, birdPosition = 300,
      birdVelocity = 0, birdRotation = 0, pipes = [], score = 0, highScore = 0,
      lastPipe = 0, frameCount = 60\<rparr>)
     = [\<lparr>pipe_id = 2000, pipe_x = 1197, pipe_height = 275, showLogo = False\<rparr>]
   \<and> list_all (pairOk DEFAULT_SETTINGS \<lparr>innerWidth = 1200, innerHeight = 800\<rparr>)
      (pipes (frames DEFAULT_SETTINGS \<lparr>innerWidth = 1200, innerHeight = 800\<rparr>
     [(2000, 0.5), (2016, 0.1)]
     \<lparr>gameStarted = True, gameOver = False, scoreSubmitted = False, birdPosition = 300,
      birdVelocity = 0, birdRotation = 0, pipes = [], score = 0, highScore = 0,
      lastPipe = 0, frameCount = 60\<rparr>))"
  using pipe_pairs_keep_gap
    [of DEFAULT_SETTINGS "\<lparr>innerWidth = 1200, innerHeight = 800\<rparr>" "[(2000, 0.5), (2016, 0.1)]"
     "\<lparr>gameStarted = True, gameOver = False, scoreSubmitted = False, birdPosition = 300,
      birdVelocity = 0, birdRotation = 0, pipes = [], score = 0, highScore = 0,
      lastPipe = 0, frameCount = 60\<rparr>"]
  by (simp add: frames_def gameLoop_def DEFAULT_SETTINGS_def movePipes_def scorePipes_def
      scorePipe_def crossesSlot_def checkCollision_def spawnPipe_def Let_def)


section \<open>Score trigger\<close>

lemma scorePipes_count:
  "fst (scorePipes st (sc, hs) ps) = sc + int (length (filter (crossesSlot st) ps))"
  unfolding scorePipes_def
  by (induction ps arbitrary: sc hs) (simp_all add: scorePipe_def Let_def)

lemma movePipes_crossing:
  "filter (crossesSlot st) (movePipes st ps) =
     map (\<lambda>pipe. pipe\<lparr>pipe_x := pipe_x pipe - pipeSpeed st\<rparr>)
       (filter (\<lambda>pipe. pipe_x pipe \<ge> 96 \<and> pipe_x pipe - pipeSpeed st < 96
                  \<and> pipe_x pipe - pipeSpeed st > -100) ps)"
  by (induction ps) (auto simp add: movePipes_def crossesSlot_def)

lemma gameLoop_score:
  assumes "gameStarted s" and "\<not> gameOver s"
  shows "score (gameLoop st w now r s) = score s +
     int (length (filter (\<lambda>pipe. pipe_x pipe \<ge> 96 \<and> pipe_x pipe - pipeSpeed st < 96
                  \<and> pipe_x pipe - pipeSpeed st > -100) (pipes s)))"
  using assms by (simp add: gameLoop_def Let_def scorePipes_count movePipes_crossing)

lemma gameLoop_pipeFrames:
  assumes "gameStarted s" and "\<not> gameOver s"
    and "\<not> (now - lastPipe s > pipeSpawnRate st \<and> frameCount s + 1 > 60)"
  shows "(pipes (gameLoop st w now r s), score (gameLoop st w now r s),
          highScore (gameLoop st w now r s)) =
         pipeFrames st 1 (pipes s, score s, highScore s)"
  using assms by (auto simp add: gameLoop_def Let_def)

lemma before_crossing:
  assumes "0 < pipeSpeed st" and "pipe_x p - real m * pipeSpeed st \<ge> 96"
  shows "pipeFrames st m ([p], sc, hs) = ([p\<lparr>pipe_x := pipe_x p - real m * pipeSpeed st\<rparr>], sc, hs)"
  using assms(2)
proof (induction m arbitrary: p)
  case 0
  then show ?case by simp
next
  case (Suc m)
  let ?q = "p\<lparr>pipe_x := pipe_x p - pipeSpeed st\<rparr>"
  have x1: "pipe_x p - pipeSpeed st \<ge> 96 + real m * pipeSpeed st"
    using Suc.prems by (simp add: algebra_simps)
  have ge: "pipe_x p - pipeSpeed st \<ge> 96"
  proof -
    have "0 \<le> real m * pipeSpeed st" using assms(1) by simp
    then show ?thesis using x1 by linarith
  qed
  have step: "movePipes st [p] = [?q]"
    using ge by (simp add: movePipes_def)
  have nocross: "scorePipes st (sc, hs) [?q] = (sc, hs)"
    using ge by (simp add: scorePipes_def scorePipe_def crossesSlot_def)
  have "pipe_x ?q - real m * pipeSpeed st \<ge> 96"
    using x1 by simp
  from Suc.IH[OF this] show ?case
    by (simp add: step nocross algebra_simps)
qed

lemma after_crossing:
  assumes "0 < pipeSpeed st" and "\<forall>p \<in> set ps. pipe_x p < 96"
  shows "fst (snd (pipeFrames st m (ps, sc, hs))) = sc"
  using assms(2)
proof (induction m arbitrary: ps hs)
  case 0
  then show ?case by simp
next
  case (Suc m)
  have left: "\<forall>p \<in> set (movePipes st ps). pipe_x p < 96"
    using Suc.prems assms(1) by (auto simp add: movePipes_def)
  have "filter (crossesSlot st) (movePipes st ps) = []"
    using Suc.prems by (auto simp add: movePipes_crossing filter_empty_conv)
  then have "scorePipes st (sc, hs) (movePipes st ps) = (sc, snd (scorePipes st (sc, hs) (movePipes st ps)))"
    using scorePipes_count[of st sc hs "movePipes st ps"] by (simp add: prod_eq_iff)
  then have "pipeFrames st (Suc m) (ps, sc, hs) =
      pipeFrames st m (movePipes st ps, sc, snd (scorePipes st (sc, hs) (movePipes st ps)))"
    by simp
  then show ?case using Suc.IH[OF left] by simp
qed

lemma pipeFrames_add:
  "pipeFrames st (m + n) z = pipeFrames st n (pipeFrames st m z)"
proof (induction m arbitrary: z)
  case 0
  then show ?case by simp
next
  case (Suc m)
  obtain ps sh where z: "z = (ps, sh)" by (cases z)
  show ?case using Suc.IH by (simp add: z)
qed

lemma crossing_frame:
  assumes "0 < pipeSpeed st"
    and "pipe_x p - real n * pipeSpeed st \<ge> 96"
    and "pipe_x p - real (Suc n) * pipeSpeed st < 96"
    and "pipe_x p - real (Suc n) * pipeSpeed st > -100"
  shows "pipeFrames st (Suc n) ([p], sc, hs) =
     ([p\<lparr>pipe_x := pipe_x p - real (Suc n) * pipeSpeed st\<rparr>], sc + 1, max hs (sc + 1))"
proof -
  let ?q = "p\<lparr>pipe_x := pipe_x p - real n * pipeSpeed st\<rparr>"
  have "pipeFrames st (Suc n) ([p], sc, hs) = pipeFrames st 1 (pipeFrames st n ([p], sc, hs))"
    unfolding Suc_eq_plus1 by (rule pipeFrames_add)
  also have "\<dots> = pipeFrames st 1 ([?q], sc, hs)"
    using before_crossing[OF assms(1,2)] by simp
  also have "\<dots> = ([p\<lparr>pipe_x := pipe_x p - real (Suc n) * pipeSpeed st\<rparr>], sc + 1, max hs (sc + 1))"
    using assms(2,3,4)
    by (simp add: movePipes_def scorePipes_def scorePipe_def crossesSlot_def Let_def algebra_simps)
  finally show ?thesis .
qed

lemma single_pipe_score:
  assumes "0 < pipeSpeed st"
    and "pipe_x p - real n * pipeSpeed st \<ge> 96"
    and "pipe_x p - real (Suc n) * pipeSpeed st < 96"
    and "pipe_x p - real (Suc n) * pipeSpeed st > -100"
  shows "fst (snd (pipeFrames st m ([p], sc, hs))) = (if m \<le> n then sc else sc + 1)"
proof (cases "m \<le> n")
  case True
  have "pipe_x p - real m * pipeSpeed st \<ge> pipe_x p - real n * pipeSpeed st"
    using True assms(1) by (simp add: mult_right_mono)
  then have "pipe_x p - real m * pipeSpeed st \<ge> 96" using assms(2) by linarith
  from before_crossing[OF assms(1) this] True show ?thesis by simp
next
  case False
  then obtain k where m: "m = Suc n + k"
    by (metis add.commute less_iff_Suc_add not_less add_Suc_right add_Suc)
  have "pipeFrames st m ([p], sc, hs) =
     pipeFrames st k ([p\<lparr>pipe_x := pipe_x p - real (Suc n) * pipeSpeed st\<rparr>], sc + 1, max hs (sc + 1))"
    unfolding m pipeFrames_add crossing_frame[OF assms] ..
  moreover have "fst (snd (pipeFrames st k
      ([p\<lparr>pipe_x := pipe_x p - real (Suc n) * pipeSpeed st\<rparr>], sc + 1, max hs (sc + 1)))) = sc + 1"
    using assms(3) by (intro after_crossing[OF assms(1)]) simp
  ultimately show ?thesis using False by simp
qed

lemma crossing_frame_unique:
  fixes x0 s :: real
  assumes "0 < s" and "96 \<le> x0"
  shows "\<exists>!n::nat. x0 - real n * s \<ge> 96 \<and> x0 - real (Suc n) * s < 96"
proof -
  define a where "a = (x0 - 96) / s"
  define k where "k = nat \<lfloor>a\<rfloor>"
  have a0: "0 \<le> a" using assms by (simp add: a_def)
  then have fl: "0 \<le> \<lfloor>a\<rfloor>" by simp
  have k1: "real k \<le> a"
    using fl by (simp add: k_def of_nat_nat)
  have k2: "a < real k + 1"
  proof -
    have "real k = of_int \<lfloor>a\<rfloor>" using fl by (simp add: k_def of_nat_nat)
    then show ?thesis by linarith
  qed
  have as: "a * s = x0 - 96" using assms(1) by (simp add: a_def)
  have e1: "x0 - real k * s \<ge> 96"
  proof -
    have "real k * s \<le> a * s" using k1 assms(1) by (simp add: mult_right_mono)
    then show ?thesis using as by linarith
  qed
  have e2: "x0 - real (Suc k) * s < 96"
  proof -
    have "a * s < (real k + 1) * s" using k2 assms(1) by (simp add: mult_strict_right_mono)
    then show ?thesis using as by (simp add: algebra_simps)
  qed
  have mono: "False"
    if "x0 - real (Suc i) * s < 96" and "x0 - real j * s \<ge> 96" and "i < j" for i j :: nat
  proof -
    have "real (Suc i) \<le> real j" using that(3) by simp
    then have "real (Suc i) * s \<le> real j * s" using assms(1) by (simp add: mult_right_mono)
    then show False using that(1,2) by linarith
  qed
  show ?thesis
  proof (rule ex1I[of _ k])
    show "x0 - real k * s \<ge> 96 \<and> x0 - real (Suc k) * s < 96" using e1 e2 by simp
  next
    fix n :: nat
    assume n: "x0 - real n * s \<ge> 96 \<and> x0 - real (Suc n) * s < 96"
    show "n = k"
    proof (rule ccontr)
      assume "n \<noteq> k"
      then consider "n < k" | "k < n" by linarith
      then show False
      proof cases
        case 1
        then show False using mono[of n k] n e1 by simp
      next
        case 2
        then show False using mono[of k n] n e2 by simp
      qed
    qed
  qed
qed


lemma frames_Cons:
  "frames st w (i # inputs) s = frames st w inputs (gameLoop st w (fst i) (snd i) s)"
  by (simp add: frames_def)

lemma gameLoop_stopped: "gameOver s \<Longrightarrow> gameLoop st w now r s = s"
  by (simp add: gameLoop_def)

lemma frames_stopped: "gameOver s \<Longrightarrow> frames st w inputs s = s"
  by (induction inputs) (simp_all add: frames_def gameLoop_stopped)

lemma gameLoop_started: "gameStarted (gameLoop st w now r s) = gameStarted s"
  by (simp add: gameLoop_def Let_def)

lemma running_before:
  assumes "\<not> gameOver (frames st w inputs (gameLoop st w now r s))"
  shows "\<not> gameOver s"
proof
  assume "gameOver s"
  then have "frames st w inputs (gameLoop st w now r s) = s"
    by (simp add: gameLoop_stopped frames_stopped)
  with assms \<open>gameOver s\<close> show False by simp
qed

lemma spawnsIn_appended:
  assumes "gameStarted s" and "\<not> gameOver s"
  shows "length (pipes (gameLoop st w now r s)) =
           length (movePipes st (pipes s)) + spawnsIn st w [(now, r)] s"
  using assms by (simp add: gameLoop_def Let_def spawnPipe_def)

lemma movePipes_account:
  assumes "0 < pipeSpeed st" and "pipeSpeed st < 196"
  shows "pending (movePipes st ps) + length (filter (crossesSlot st) (movePipes st ps))
           = pending ps"
  using assms by (induction ps) (auto simp add: pending_def movePipes_def crossesSlot_def)

lemma spawnPipe_pending:
  "96 \<le> innerWidth w \<Longrightarrow> pending (spawnPipe st w now r ps) = pending ps + 1"
  by (simp add: pending_def spawnPipe_def Let_def)

lemma gameLoop_account:
  assumes "0 < pipeSpeed st" and "pipeSpeed st < 196" and "96 \<le> innerWidth w"
  shows "score (gameLoop st w now r s) + int (pending (pipes (gameLoop st w now r s)))
           = score s + int (pending (pipes s)) + int (spawnsIn st w [(now, r)] s)"
proof (cases "gameStarted s \<and> \<not> gameOver s")
  case False
  then show ?thesis by (auto simp add: gameLoop_def)
next
  case True
  have sc: "score (gameLoop st w now r s) =
      score s + int (length (filter (crossesSlot st) (movePipes st (pipes s))))"
    using True by (simp add: gameLoop_def Let_def scorePipes_count)
  have acc: "int (pending (movePipes st (pipes s)))
      + int (length (filter (crossesSlot st) (movePipes st (pipes s)))) = int (pending (pipes s))"
    using movePipes_account[OF assms(1,2), of "pipes s"] by linarith
  show ?thesis
  proof (cases "now - lastPipe s > pipeSpawnRate st \<and> frameCount s + 1 > 60")
    case spawn: True
    have "pipes (gameLoop st w now r s) = spawnPipe st w now r (movePipes st (pipes s))"
      using True spawn by (simp add: gameLoop_def Let_def)
    then show ?thesis
      using sc acc True spawn assms(3) by (simp add: spawnPipe_pending)
  next
    case nospawn: False
    have "pipes (gameLoop st w now r s) = movePipes st (pipes s)"
      using True nospawn by (auto simp add: gameLoop_def Let_def)
    then show ?thesis
      using sc acc True nospawn by auto
  qed
qed

lemma frames_account:
  assumes "0 < pipeSpeed st" and "pipeSpeed st < 196" and "96 \<le> innerWidth w"
  shows "score (frames st w inputs s) + int (pending (pipes (frames st w inputs s)))
           = score s + int (pending (pipes s)) + int (spawnsIn st w inputs s)"
proof (induction inputs arbitrary: s)
  case Nil
  then show ?case by (simp add: frames_def)
next
  case (Cons i inputs)
  have one: "score (gameLoop st w (fst i) (snd i) s)
        + int (pending (pipes (gameLoop st w (fst i) (snd i) s)))
      = score s + int (pending (pipes s)) + int (spawnsIn st w [(fst i, snd i)] s)"
    by (rule gameLoop_account[OF assms])
  show ?case
    using Cons.IH[of "gameLoop st w (fst i) (snd i) s"] one
    by (simp add: frames_Cons)
qed

lemma frames_pipeFrames:
  assumes "gameStarted s" and "\<not> gameOver (frames st w inputs s)"
    and "\<forall>i \<in> set inputs. fst i - lastPipe s \<le> pipeSpawnRate st"
  shows "(pipes (frames st w inputs s), score (frames st w inputs s),
          highScore (frames st w inputs s))
         = pipeFrames st (length inputs) (pipes s, score s, highScore s)"
  using assms
proof (induction inputs arbitrary: s)
  case Nil
  then show ?case by (simp add: frames_def)
next
  case (Cons i inputs)
  let ?s1 = "gameLoop st w (fst i) (snd i) s"
  have run: "\<not> gameOver s"
    using Cons.prems(2) by (auto simp add: frames_Cons dest: running_before)
  have nospawn: "\<not> (fst i - lastPipe s > pipeSpawnRate st \<and> frameCount s + 1 > 60)"
    using Cons.prems(3) by auto
  have step: "(pipes ?s1, score ?s1, highScore ?s1) = pipeFrames st 1 (pipes s, score s, highScore s)"
    by (rule gameLoop_pipeFrames[OF Cons.prems(1) run nospawn])
  have lp: "lastPipe ?s1 = lastPipe s"
    using Cons.prems(1) run nospawn by (auto simp add: gameLoop_def Let_def)
  have "(pipes (frames st w inputs ?s1), score (frames st w inputs ?s1),
          highScore (frames st w inputs ?s1))
         = pipeFrames st (length inputs) (pipes ?s1, score ?s1, highScore ?s1)"
    using Cons.prems by (intro Cons.IH) (simp_all add: gameLoop_started frames_Cons lp)
  also have "\<dots> = pipeFrames st (1 + length inputs) (pipes s, score s, highScore s)"
    unfolding step pipeFrames_add ..
  finally show ?case by (simp add: frames_Cons)
qed

lemma movePipes_keeps:
  assumes "p \<in> set ps" and "- 100 < pipe_x p - pipeSpeed st"
  shows "p\<lparr>pipe_x := pipe_x p - pipeSpeed st\<rparr> \<in> set (movePipes st ps)"
  using assms by (auto simp add: movePipes_def)

lemma gameLoop_keeps:
  assumes "gameStarted s" and "\<not> gameOver s"
    and "p \<in> set (pipes s)" and "- 100 < pipe_x p - pipeSpeed st"
  shows "p\<lparr>pipe_x := pipe_x p - pipeSpeed st\<rparr> \<in> set (pipes (gameLoop st w now r s))"
  using assms movePipes_keeps[OF assms(3,4)]
  by (simp add: gameLoop_def Let_def spawnPipe_def)

lemma frames_keeps:
  assumes "0 < pipeSpeed st"
    and "gameStarted s" and "\<not> gameOver (frames st w inputs s)"
    and "p \<in> set (pipes s)"
    and "- 100 < pipe_x p - real (length inputs) * pipeSpeed st"
  shows "p\<lparr>pipe_x := pipe_x p - real (length inputs) * pipeSpeed st\<rparr>
           \<in> set (pipes (frames st w inputs s))"
  using assms(2-)
proof (induction inputs arbitrary: s p)
  case Nil
  then show ?case by (simp add: frames_def)
next
  case (Cons i inputs)
  let ?s1 = "gameLoop st w (fst i) (snd i) s"
  let ?q = "p\<lparr>pipe_x := pipe_x p - pipeSpeed st\<rparr>"
  have run: "\<not> gameOver s"
    using Cons.prems(2) by (auto simp add: frames_Cons dest: running_before)
  have "0 \<le> real (length inputs) * pipeSpeed st" using assms(1) by simp
  then have on: "- 100 < pipe_x p - pipeSpeed st"
    using Cons.prems(4) by (simp add: algebra_simps)
  have q: "?q \<in> set (pipes ?s1)"
    by (rule gameLoop_keeps[OF Cons.prems(1) run Cons.prems(3) on])
  have "?q\<lparr>pipe_x := pipe_x ?q - real (length inputs) * pipeSpeed st\<rparr>
           \<in> set (pipes (frames st w inputs ?s1))"
    using Cons.prems q by (intro Cons.IH) (simp_all add: gameLoop_started frames_Cons algebra_simps)
  then show ?case by (simp add: frames_Cons algebra_simps)
qed

text \<open>
  C9. Let \<open>pipeSpeed > 0\<close> and take any run of \<open>gameLoop\<close> that leaves the loop running.
  (1) If the state holds a single pair, no frame of the run spawns one, and the pair's x is
  at least 96 before frame \<open>n + 1\<close>, below 96 after it and still above \<open>-100\<close> then, the
  score after the run is unchanged when the run has at most \<open>n\<close> frames and higher by
  exactly 1 when it has more: the increment happens on frame \<open>n + 1\<close> and never again.
  (2) Whatever other pairs exist or spawn, a pair of the starting state is in the list after
  the run, moved left by \<open>pipeSpeed\<close> per frame, as long as that x is above \<open>-100\<close>.
  (3) Whatever pairs exist or spawn, when \<open>pipeSpeed < 196\<close> (no pair can go from the slot to
  beyond \<open>-100\<close> in one frame) and the window is at least 96 wide, the score gained over the
  run is the number of pairs that were at or right of the slot at the start or were spawned,
  less the number still at or right of the slot: one point for each pair that went past.
  (4) In one frame the score rises by the number of pairs with previous x at least 96 and new
  x below 96 that stay on screen. (5) A pair that starts at or right of the slot has exactly
  one frame on which its x goes from at least 96 to below 96.
\<close>

theorem pipe_pair_scores_once:
  assumes "0 < pipeSpeed st" and "gameStarted s" and "\<not> gameOver (frames st w inputs s)"
  shows "(pipes s = [p]
          \<and> 96 \<le> pipe_x p - real n * pipeSpeed st
          \<and> pipe_x p - real (Suc n) * pipeSpeed st < 96
          \<and> - 100 < pipe_x p - real (Suc n) * pipeSpeed st
          \<and> (\<forall>i \<in> set inputs. fst i - lastPipe s \<le> pipeSpawnRate st) \<longrightarrow>
            score (frames st w inputs s) = score s + (if length inputs \<le> n then 0 else 1))
       \<and> (q \<in> set (pipes s)
          \<and> - 100 < pipe_x q - real (length inputs) * pipeSpeed st \<longrightarrow>
            q\<lparr>pipe_x := pipe_x q - real (length inputs) * pipeSpeed st\<rparr>
              \<in> set (pipes (frames st w inputs s)))
       \<and> (pipeSpeed st < 196 \<and> 96 \<le> innerWidth w \<longrightarrow>
            score (frames st w inputs s) + int (pending (pipes (frames st w inputs s)))
              = score s + int (pending (pipes s)) + int (spawnsIn st w inputs s))
       \<and> score (gameLoop st w now r s) = score s +
           int (length (filter (\<lambda>pipe. pipe_x pipe \<ge> 96 \<and> pipe_x pipe - pipeSpeed st < 96
                  \<and> pipe_x pipe - pipeSpeed st > -100) (pipes s)))
       \<and> (96 \<le> pipe_x q \<longrightarrow>
            (\<exists>!k::nat. pipe_x q - real k * pipeSpeed st \<ge> 96
                      \<and> pipe_x q - real (Suc k) * pipeSpeed st < 96))"
proof -
  have run: "\<not> gameOver s"
    using assms(3) by (auto simp add: frames_stopped)
  have one: "score (frames st w inputs s) = score s + (if length inputs \<le> n then 0 else 1)"
    if "pipes s = [p]" and "96 \<le> pipe_x p - real n * pipeSpeed st"
      and "pipe_x p - real (Suc n) * pipeSpeed st < 96"
      and "- 100 < pipe_x p - real (Suc n) * pipeSpeed st"
      and "\<forall>i \<in> set inputs. fst i - lastPipe s \<le> pipeSpawnRate st"
  proof -
    have "score (frames st w inputs s)
        = fst (snd (pipeFrames st (length inputs) (pipes s, score s, highScore s)))"
      using frames_pipeFrames[OF assms(2,3) that(5)] by (metis fst_conv snd_conv)
    then show ?thesis
      using single_pipe_score[OF assms(1) that(2,3,4), of "length inputs" "score s" "highScore s"]
        that(1) by simp
  qed
  show ?thesis
    using one frames_keeps[OF assms] frames_account[OF assms(1)]
      gameLoop_score[OF assms(2) run] crossing_frame_unique[OF assms(1)]
    by simp
qed

theorem pipe_pair_scores_once_witness:
  "score (frames DEFAULT_SETTINGS \<lparr>innerWidth = 1200, innerHeight = 800\<rparr> [(0, 0), (16, 0)]
       \<lparr>gameStarted = True, gameOver = False, scoreSubmitted = False, birdPosition = 300,
        birdVelocity = 0, birdRotation = 0,
        pipes = [\<lparr>pipe_id = 0, pipe_x = 102, pipe_height = 275, showLogo = False\<rparr>],
        score = 0, highScore = 0, lastPipe = 0, frameCount = 200\<rparr>) = 0
   \<and> score (frames DEFAULT_SETTINGS \<lparr>innerWidth = 1200, innerHeight = 800\<rparr> [(0, 0), (16, 0), (32, 0), (48, 0)]
       \<lparr>gameStarted = True, gameOver = False, scoreSubmitted = False, birdPosition = 300,
        birdVelocity = 0, birdRotation = 0,
        pipes = [\<lparr>pipe_id = 0, pipe_x = 102, pipe_height = 275, showLogo = False\<rparr>],
        score = 0, highScore = 0, lastPipe = 0, frameCount = 200\<rparr>) = 1
   \<and> pipes (frames DEFAULT_SETTINGS \<lparr>innerWidth = 1200, innerHeight = 800\<rparr> [(0, 0), (16, 0), (32, 0), (48, 0)]
       \<lparr>gameStarted = True, gameOver = False, scoreSubmitted = False, birdPosition = 300,
        birdVelocity = 0, birdRotation = 0,
        pipes = [\<lparr>pipe_id = 0, pipe_x = 102, pipe_height = 275, showLogo = False\<rparr>],
        score = 0, highScore = 0, lastPipe = 0, frameCount = 200\<rparr>)
       = [\<lparr>pipe_id = 0, pipe_x = 90, pipe_height = 275, showLogo = False\<rparr>]
   \<and> score (frames DEFAULT_SETTINGS \<lparr>innerWidth = 1200, innerHeight = 800\<rparr> [(2000, 0.5), (2016, 0.1), (2032, 0.3), (2048, 0.2)]
       \<lparr>gameStarted = True, gameOver = False, scoreSubmitted = False, birdPosition = 300,
        birdVelocity = 0, birdRotation = 0,
        pipes = [\<lparr>pipe_id = 0, pipe_x = 102, pipe_height = 275, showLogo = False\<rparr>],
        score = 0, highScore = 0, lastPipe = 0, frameCount = 60\<rparr>) = 1
   \<and> pending (pipes (frames DEFAULT_SETTINGS \<lparr>innerWidth = 1200, innerHeight = 800\<rparr> [(2000, 0.5), (2016, 0.1), (2032, 0.3), (2048, 0.2)]
       \<lparr>gameStarted = True, gameOver = False, scoreSubmitted = False, birdPosition = 300,
        birdVelocity = 0, birdRotation = 0,
        pipes = [\<lparr>pipe_id = 0, pipe_x = 102, pipe_height = 275, showLogo = False\<rparr>],
        score = 0, highScore = 0, lastPipe = 0, frameCount = 60\<rparr>)) = 1
   \<and> spawnsIn DEFAULT_SETTINGS \<lparr>innerWidth = 1200, innerHeight = 800\<rparr> [(2000, 0.5), (2016, 0.1), (2032, 0.3), (2048, 0.2)]
       \<lparr>gameStarted = True, gameOver = False, scoreSubmitted = False, birdPosition = 300,
        birdVelocity = 0, birdRotation = 0,
        pipes = [\<lparr>pipe_id = 0, pipe_x = 102, pipe_height = 275, showLogo = False\<rparr>],
        score = 0, highScore = 0, lastPipe = 0, frameCount = 60\<rparr> = 1"
  using
    pipe_pair_scores_once
      [of DEFAULT_SETTINGS
        "\<lparr>gameStarted = True, gameOver = False, scoreSubmitted = False, birdPosition = 300,
        birdVelocity = 0, birdRotation = 0,
        pipes = [\<lparr>pipe_id = 0, pipe_x = 102, pipe_height = 275, showLogo = False\<rparr>],
        score = 0, highScore = 0, lastPipe = 0, frameCount = 200\<rparr>"
        "\<lparr>innerWidth = 1200, innerHeight = 800\<rparr>" "[(0, 0), (16, 0)]"
        "\<lparr>pipe_id = 0, pipe_x = 102, pipe_height = 275, showLogo = False\<rparr>" 2
        "\<lparr>pipe_id = 0, pipe_x = 102, pipe_height = 275, showLogo = False\<rparr>" 0 0]
    pipe_pair_scores_once
      [of DEFAULT_SETTINGS
        "\<lparr>gameStarted = True, gameOver = False, scoreSubmitted = False, birdPosition = 300,
        birdVelocity = 0, birdRotation = 0,
        pipes = [\<lparr>pipe_id = 0, pipe_x = 102, pipe_height = 275, showLogo = False\<rparr>],
        score = 0, highScore = 0, lastPipe = 0, frameCount = 200\<rparr>"
        "\<lparr>innerWidth = 1200, innerHeight = 800\<rparr>" "[(0, 0), (16, 0), (32, 0), (48, 0)]"
        "\<lparr>pipe_id = 0, pipe_x = 102, pipe_height = 275, showLogo = False\<rparr>" 2
        "\<lparr>pipe_id = 0, pipe_x = 102, pipe_height = 275, showLogo = False\<rparr>" 0 0]
    pipe_pair_scores_once
      [of DEFAULT_SETTINGS
        "\<lparr>gameStarted = True, gameOver = False, scoreSubmitted = False, birdPosition = 300,
        birdVelocity = 0, birdRotation = 0,
        pipes = [\<lparr>pipe_id = 0, pipe_x = 102, pipe_height = 275, showLogo = False\<rparr>],
        score = 0, highScore = 0, lastPipe = 0, frameCount = 60\<rparr>"
        "\<lparr>innerWidth = 1200, innerHeight = 800\<rparr>" "[(2000, 0.5), (2016, 0.1), (2032, 0.3), (2048, 0.2)]"
        "\<lparr>pipe_id = 0, pipe_x = 102, pipe_height = 275, showLogo = False\<rparr>" 2
        "\<lparr>pipe_id = 0, pipe_x = 102, pipe_height = 275, showLogo = False\<rparr>" 0 0]
  by (simp add: frames_def gameLoop_def DEFAULT_SETTINGS_def movePipes_def scorePipes_def
      scorePipe_def crossesSlot_def checkCollision_def pipeHits_def birdRect_def topPipeRect_def
      bottomPipeRect_def spawnPipe_def pending_def Let_def)


section \<open>High-score submission\<close>

lemma policies_admit:
  "admits Select role \<and> admits Insert authenticated \<and> \<not> admits Delete role"
  by (cases role) (simp_all add: admits_def rgc_high_scores_policies_def)

lemma mathMin_Min: "vs \<noteq> [] \<Longrightarrow> mathMin vs = Some (Min (set vs))"
proof (induction vs)
  case Nil
  then show ?case by simp
next
  case (Cons v vs)
  show ?case
  proof (cases "vs = []")
    case True
    then show ?thesis by simp
  next
    case False
    with Cons.IH show ?thesis by simp
  qed
qed

lemma selectScoresDesc_min:
  assumes "rows \<noteq> []"
  shows "mathMin (selectScoresDesc role rows) = Some (Min (hs_score ` set rows))"
proof -
  have "length (selectScoresDesc role rows) = length rows"
    by (simp add: selectScoresDesc_def policies_admit)
  then have "selectScoresDesc role rows \<noteq> []"
    using assms by (metis length_0_conv)
  from mathMin_Min[OF this] show ?thesis by (simp add: selectScoresDesc_def policies_admit)
qed

text \<open>
  What holds of every submission with a non-empty username against a table of three rows
  that answers the first query. The rejection notice is shown exactly when the new score does
  not exceed the lowest stored score, and then nothing else changes. When the new score
  exceeds it and the identity step succeeds, the new row is appended and every old row is
  still there.
\<close>

lemma saveHighScore_three_rows:
  assumes "username \<noteq> []" and "fetchOk be"
    and "length (rgc_high_scores b) = 3"
  shows "alerted (saveHighScore username sc be b) =
            (alerted b \<or> sc \<le> Min (hs_score ` set (rgc_high_scores b)))"
    and "sc \<le> Min (hs_score ` set (rgc_high_scores b)) \<Longrightarrow>
            saveHighScore username sc be b = b\<lparr>alerted := True\<rparr>"
    and "sc > Min (hs_score ` set (rgc_high_scores b)) \<Longrightarrow> \<not> signUpError be \<Longrightarrow>
          user be = Some uid \<Longrightarrow>
            rgc_high_scores (saveHighScore username sc be b) =
              rgc_high_scores b @ [\<lparr>hs_user_id = uid, hs_score = sc, hs_username = username\<rparr>]"
proof -
  have ne: "rgc_high_scores b \<noteq> []" using assms(3) by auto
  have len: "length (selectScoresDesc (callerRole be) (rgc_high_scores b)) = 3"
    using assms(3) by (simp add: selectScoresDesc_def policies_admit)
  note facts = assms(1,2) len selectScoresDesc_min[OF ne, of "callerRole be"]
  show "alerted (saveHighScore username sc be b) =
            (alerted b \<or> sc \<le> Min (hs_score ` set (rgc_high_scores b)))"
    using facts
    by (auto simp add: saveHighScore_def Let_def leMin_def split: option.splits)
  show "saveHighScore username sc be b = b\<lparr>alerted := True\<rparr>"
    if "sc \<le> Min (hs_score ` set (rgc_high_scores b))"
    using facts that by (simp add: saveHighScore_def Let_def leMin_def)
  show "rgc_high_scores (saveHighScore username sc be b) =
              rgc_high_scores b @ [\<lparr>hs_user_id = uid, hs_score = sc, hs_username = username\<rparr>]"
    if "sc > Min (hs_score ` set (rgc_high_scores b))" and "\<not> signUpError be"
      and "user be = Some uid"
    using facts that
    by (simp add: saveHighScore_def Let_def leMin_def deleteByScore_def insertRow_def
        policies_admit)
qed

text \<open>
  C7. The claim says an accepted submission against a store of three entries evicts the
  minimum entry, so that 50, 40, 30 with 35 submitted becomes 50, 40, 35. \<open>saveHighScore\<close>
  does send the delete for the lowest score, but no policy of the table admits a delete, so
  the row stays: after the submission the table holds four rows, 50, 40, 30 and 35. The list
  \<open>highScores\<close> shown to the player, the three best rows, is 50, 40, 35.
\<close>

theorem saveHighScore_keeps_lowest_row:
  "saveHighScore ''ann'' 35
     \<lparr>callerRole = anon, fetchOk = True, signUpError = False, user = Some ''u4''\<rparr>
     \<lparr>rgc_high_scores =
        [\<lparr>hs_user_id = ''u1'', hs_score = 50, hs_username = ''a''\<rparr>,
         \<lparr>hs_user_id = ''u2'', hs_score = 40, hs_username = ''b''\<rparr>,
         \<lparr>hs_user_id = ''u3'', hs_score = 30, hs_username = ''c''\<rparr>],
      highScores = [], submitted = False, alerted = False\<rparr>
   = \<lparr>rgc_high_scores =
        [\<lparr>hs_user_id = ''u1'', hs_score = 50, hs_username = ''a''\<rparr>,
         \<lparr>hs_user_id = ''u2'', hs_score = 40, hs_username = ''b''\<rparr>,
         \<lparr>hs_user_id = ''u3'', hs_score = 30, hs_username = ''c''\<rparr>,
         \<lparr>hs_user_id = ''u4'', hs_score = 35, hs_username = ''ann''\<rparr>],
      highScores =
        [\<lparr>hs_user_id = ''u1'', hs_score = 50, hs_username = ''a''\<rparr>,
         \<lparr>hs_user_id = ''u2'', hs_score = 40, hs_username = ''b''\<rparr>,
         \<lparr>hs_user_id = ''u4'', hs_score = 35, hs_username = ''ann''\<rparr>],
      submitted = True, alerted = False\<rparr>"
  by (simp add: saveHighScore_def selectScoresDesc_def deleteByScore_def insertRow_def
      selectTop3_def admits_def rgc_high_scores_policies_def leMin_def Let_def)


section \<open>Car spawning\<close>

lemma spawnLoop_length:
  "spawnLoop st w lvl rnd numLanes n k usedLanes newCars = Some cs \<Longrightarrow>
     length cs = length newCars + n"
proof (induction n arbitrary: k usedLanes newCars)
  case 0
  then show ?case by simp
next
  case (Suc n)
  from Suc.prems obtain lane k1 where
    "spawnLoop st w lvl rnd numLanes n (k1 + 2) (insert lane usedLanes)
       (newCars @ [newCar w (50 + real_of_int lane * 60 + 60 / 4)
          (min ((baseCarSpeed st + rnd (k1 + 1) * 3) * (1 + real_of_int lvl * levelSpeedIncrease st))
             (maxCarSpeed st))
          (if rnd k1 < 0.5 then 1 else -1) st]) = Some cs"
    by (auto simp add: Let_def split: option.splits)
  from Suc.IH[OF this] show ?case by simp
qed

lemma spawnCar_adds:
  assumes "spawnCar st (Some canvas) w now rnd s = Some s'"
    and "\<not> now - lastSpawnTime s < 1500 / (1 + real_of_int (level s) * levelSpawnIncrease st)"
  shows "length (cars s') = length (cars s) + nat (carsToSpawn st (level s) rnd)"
  using assms
  by (auto simp add: spawnCar_def Let_def split: option.splits dest: spawnLoop_length)

text \<open>
  C10. The claim says a frame on which the cooldown has elapsed always adds at least one car.
  \<open>spawnCar_adds\<close> above gives the number added: the value of \<open>carsToSpawn\<close>. That value is
  \<open>Math.ceil(Math.random() * maxCarsToSpawn)\<close> when the chance roll succeeds, which is 0 when
  the second random number is 0. Here the cooldown has elapsed (2000 ms since the last spawn,
  interval 1500 / 1.1), the field has 7 lanes, both random numbers are 0, and the call returns
  with the car list unchanged.
\<close>

theorem spawnCar_zero_roll_adds_no_car:
  "spawnCar DEFAULT_SETTINGS_crossy (Some \<lparr>canvas_width = 800, canvas_height = 560\<rparr>)
     \<lparr>innerWidth = 800, innerHeight = 800\<rparr> 2000 (\<lambda>k. 0)
     \<lparr>character = Some \<lparr>char_x = 385, char_y = 520, char_size = 30, isAlive = True\<rparr>,
      cars = [], obstacles = [], crossyScore = 0, level = 1, crossyGameOver = False,
      lastSpawnTime = 0\<rparr>
   = Some \<lparr>character = Some \<lparr>char_x = 385, char_y = 520, char_size = 30, isAlive = True\<rparr>,
      cars = [], obstacles = [], crossyScore = 0, level = 1, crossyGameOver = False,
      lastSpawnTime = 2000\<rparr>"
  by (simp add: spawnCar_def carsToSpawn_def DEFAULT_SETTINGS_crossy_def Let_def)



end
